theory Spec2Isabelle
  imports Main "HOL-Library.Sublist"
begin

section \<open>The pact verifier of \<^verbatim>\<open>verifier.go\<close>\<close>

text \<open>
  A shallow embedding of \<^verbatim>\<open>src/verifier.go\<close> (package \<^verbatim>\<open>pact\<close>). The file holds the
  verifier's configuration methods and its two entry points, \<^verbatim>\<open>Verify\<close> and
  \<^verbatim>\<open>VerifyState\<close>. Its collaborators live in other files of the repository: the
  readers of package \<^verbatim>\<open>io\<close>, the document type \<^verbatim>\<open>io.PactFile\<close>, the type
  \<^verbatim>\<open>consumer.Interaction\<close> and the \<^verbatim>\<open>consumerValidator\<close>. They are taken as
  parameters here: records of functions over an explicit world.
\<close>

subsection \<open>Errors and panics\<close>

text \<open>
  The four package-level error values of lines 53 to 58, and the errors that the
  collaborators hand back. A collaborator may return any error value, the four
  sentinels included.
\<close>

datatype error =
    errNoFilteredInteractionsFound
  | errEmptyProvider
  | errEmptyConsumer
  | errVerficationFailed
  | CollaboratorError string

text \<open>
  A Go function either returns or panics (here: by dereferencing a nil pointer).
  After a panic the run is over, so no world is kept.
\<close>

datatype 'r outcome = Returns 'r | Panics

subsection \<open>Data\<close>

text \<open>
  Modelled from the spec: the declaration of \<^verbatim>\<open>consumer.Interaction\<close> is missing.
  \<^verbatim>\<open>verifier.go\<close> reads its fields \<^verbatim>\<open>Description\<close> and \<^verbatim>\<open>State\<close>, both compared
  with strings; the spec's data model adds the expected request and the expected
  response, whose types are parameters here.
\<close>

record ('rq, 'rs) Interaction =
  Description :: string
  State :: string
  Request :: 'rq
  Response :: 'rs

text \<open>
  Modelled from the spec: the declaration of \<^verbatim>\<open>io.PactFile\<close> is missing.
  \<^verbatim>\<open>verifier.go\<close> reads and assigns its field \<^verbatim>\<open>Interactions\<close>, a slice of
  pointers to interactions; the spec's data model gives a document a consumer name
  and a provider name beside its ordered interactions. No element of a well-formed
  document is nil, and \<^verbatim>\<open>verifier.go\<close> never writes through the pointers, so the
  model keeps the interactions themselves, as a list.
\<close>

record ('rq, 'rs) PactFile =
  Consumer :: string
  Provider :: string
  Interactions :: "('rq, 'rs) Interaction list"

text \<open>
  Modelled from the spec: the declaration of \<^verbatim>\<open>PactUriConfig\<close> is missing.
  \<^verbatim>\<open>getPactFile\<close> reads its fields \<^verbatim>\<open>Username\<close> and \<^verbatim>\<open>Password\<close>, the optional
  credentials of the spec's remote reader.
\<close>

record PactUriConfig =
  Username :: string
  Password :: string

text \<open>
  \<^verbatim>\<open>stateAction\<close> (lines 24 to 27). The type \<^verbatim>\<open>Action\<close> is \<^verbatim>\<open>func() error\<close>; the
  verifier only stores such values and passes them on, so their representation is the
  type parameter \<open>'a\<close>.
\<close>

record 'a stateAction =
  setupAction :: 'a
  teardownAction :: 'a

text \<open>
  The world of a run. \<^verbatim>\<open>getPactFile\<close> returns a pointer \<^verbatim>\<open>*io.PactFile\<close>, and
  \<^verbatim>\<open>VerifyState\<close> assigns to a field of the object behind it: documents live in a
  store, from addresses to documents, and a pointer is an address (an address outside
  the store's domain is a nil pointer). Everything else that the collaborators can
  read or change (file system, network, provider, log) is \<open>outside\<close>.
\<close>

type_synonym addr = nat

record ('rq, 'rs, 'x) world =
  docs :: "addr \<rightharpoonup> ('rq, 'rs) PactFile"
  outside :: 'x

subsection \<open>Collaborators\<close>

text \<open>
  The two readers that \<^verbatim>\<open>getPactFile\<close> constructs: \<^verbatim>\<open>io.NewPactWebReader(uri,
  username, password)\<close> and \<^verbatim>\<open>io.NewPactFileReader(path)\<close>.
\<close>

datatype PactReader =
    PactWebReader string string string
  | PactFileReader string

text \<open>
  Modelled from the spec: the bodies of the functions of package \<^verbatim>\<open>io\<close> that
  \<^verbatim>\<open>verifier.go\<close> calls are missing; they are the fields of this record. \<open>IsWebUri\<close>
  is a test on the string. \<open>Read\<close> is the method of a reader: it acts on the world
  and returns Go's pair \<^verbatim>\<open>(f, err)\<close>, here \<open>Inl err\<close> when \<^verbatim>\<open>err\<close> is not nil
  (\<^verbatim>\<open>getPactFile\<close> then ignores \<^verbatim>\<open>f\<close>) and \<open>Inr f\<close> otherwise, where the pointer
  \<^verbatim>\<open>f\<close> may still be nil. \<open>FileValidate\<close> is the method \<^verbatim>\<open>Validate\<close> of
  \<^verbatim>\<open>io.PactFile\<close>: the spec makes it the structural validation of the document, so
  it is a function of the document behind the pointer.
\<close>

record ('rq, 'rs, 'x) pact_io =
  IsWebUri :: "string \<Rightarrow> bool"
  Read :: "PactReader \<Rightarrow> ('rq, 'rs, 'x) world \<Rightarrow> (error + addr) \<times> ('rq, 'rs, 'x) world"
  FileValidate :: "('rq, 'rs) PactFile \<Rightarrow> error option"

text \<open>
  The interface \<^verbatim>\<open>consumerValidator\<close>, whose implementation is in another file.
  \<open>CanValidate\<close> returns an error or nil; \<open>ProviderService\<close> takes the pointers to
  the HTTP client and to the URL of the provider; \<open>Validate\<close> takes the document
  pointer and the state actions and returns the pair \<^verbatim>\<open>(bool, error)\<close>. All three act
  on the world, which holds the validator's own state.
\<close>

record ('a, 'rq, 'rs, 'x) consumerValidator =
  CanValidate :: "('rq, 'rs, 'x) world \<Rightarrow> error option \<times> ('rq, 'rs, 'x) world"
  ProviderService :: "addr \<Rightarrow> addr \<Rightarrow> ('rq, 'rs, 'x) world \<Rightarrow> ('rq, 'rs, 'x) world"
  Validate :: "addr \<Rightarrow> (string \<rightharpoonup> 'a stateAction) \<Rightarrow> ('rq, 'rs, 'x) world
                 \<Rightarrow> (bool \<times> error option) \<times> ('rq, 'rs, 'x) world"

subsection \<open>The verifier\<close>

text \<open>
  \<^verbatim>\<open>pactFileVerfier\<close> (lines 29 to 37). \<open>pactUriConfig\<close> is a pointer: \<open>None\<close> is
  nil, its value until \<^verbatim>\<open>PactUri\<close> is called. The field \<^verbatim>\<open>config\<close> holds the logger
  handed to the validator at construction and is read by no method of the file; it is
  left out.
\<close>

record ('a, 'rq, 'rs, 'x) pactFileVerfier =
  stateActions :: "string \<rightharpoonup> 'a stateAction"
  provider :: string
  consumer :: string
  pactUri :: string
  pactUriConfig :: "PactUriConfig option"
  validator :: "('a, 'rq, 'rs, 'x) consumerValidator"

text \<open>
  \<^verbatim>\<open>NewPactFileVerifier\<close> (lines 41 to 51): an empty map of state actions, every
  other field at Go's zero value. \<^verbatim>\<open>newConsumerValidator\<close> is in another file, so the
  validator it builds is the argument here.
\<close>

definition NewPactFileVerifier ::
  "('a, 'rq, 'rs, 'x) consumerValidator \<Rightarrow> ('a, 'rq, 'rs, 'x) pactFileVerfier" where
  "NewPactFileVerifier val =
     \<lparr>stateActions = Map.empty, provider = [], consumer = [], pactUri = [],
      pactUriConfig = None, validator = val\<rparr>"

text \<open>
  \<^verbatim>\<open>ServiceProvider\<close> (lines 61 to 65): the name is stored, the client and the URL
  go to the validator.
\<close>

definition ServiceProvider ::
  "string \<Rightarrow> addr \<Rightarrow> addr \<Rightarrow> ('a, 'rq, 'rs, 'x) pactFileVerfier \<Rightarrow> ('rq, 'rs, 'x) world
     \<Rightarrow> ('a, 'rq, 'rs, 'x) pactFileVerfier \<times> ('rq, 'rs, 'x) world" where
  "ServiceProvider providerName c u v w =
     (v\<lparr>provider := providerName\<rparr>, ProviderService (validator v) c u w)"

text \<open>\<^verbatim>\<open>ProviderState\<close> (lines 68 to 74).\<close>

definition ProviderState ::
  "string \<Rightarrow> 'a \<Rightarrow> 'a \<Rightarrow> ('a, 'rq, 'rs, 'x) pactFileVerfier
     \<Rightarrow> ('a, 'rq, 'rs, 'x) pactFileVerfier" where
  "ProviderState state setup teardown v =
     (if state \<noteq> []
      then v\<lparr>stateActions :=
               (stateActions v)(state \<mapsto> \<lparr>setupAction = setup, teardownAction = teardown\<rparr>)\<rparr>
      else v)"

text \<open>\<^verbatim>\<open>HonoursPactWith\<close> (lines 77 to 80).\<close>

definition HonoursPactWith ::
  "string \<Rightarrow> ('a, 'rq, 'rs, 'x) pactFileVerfier \<Rightarrow> ('a, 'rq, 'rs, 'x) pactFileVerfier" where
  "HonoursPactWith consumerName v = v\<lparr>consumer := consumerName\<rparr>"

text \<open>
  \<^verbatim>\<open>PactUri\<close> (lines 83 to 90). The package variable \<^verbatim>\<open>DefaultPactUriConfig\<close> is
  declared in another file: it is the first argument (a pointer, so possibly nil).
\<close>

definition PactUri ::
  "PactUriConfig option \<Rightarrow> string \<Rightarrow> PactUriConfig option
     \<Rightarrow> ('a, 'rq, 'rs, 'x) pactFileVerfier \<Rightarrow> ('a, 'rq, 'rs, 'x) pactFileVerfier" where
  "PactUri DefaultPactUriConfig uri config v =
     (let config' = (if config = None then DefaultPactUriConfig else config)
      in v\<lparr>pactUriConfig := config', pactUri := uri\<rparr>)"

text \<open>\<^verbatim>\<open>verifyInternalState\<close> (lines 163 to 172).\<close>

definition verifyInternalState ::
  "('a, 'rq, 'rs, 'x) pactFileVerfier \<Rightarrow> ('rq, 'rs, 'x) world
     \<Rightarrow> error option \<times> ('rq, 'rs, 'x) world" where
  "verifyInternalState v w =
     (if consumer v = [] then (Some errEmptyConsumer, w)
      else if provider v = [] then (Some errEmptyProvider, w)
      else CanValidate (validator v) w)"

text \<open>
  \<^verbatim>\<open>getPactFile\<close> (lines 144 to 161). The web reader is built from the fields of
  \<^verbatim>\<open>v.pactUriConfig\<close>: with a nil configuration that dereference panics, before
  anything is read. The method \<^verbatim>\<open>f.Validate()\<close> reads the document behind \<^verbatim>\<open>f\<close>.
  Lines 145 to 150 choose the reader.
\<close>

definition pactReader ::
  "('rq, 'rs, 'x) pact_io \<Rightarrow> ('a, 'rq, 'rs, 'x) pactFileVerfier \<Rightarrow> PactReader outcome" where
  "pactReader io v =
     (if IsWebUri io (pactUri v)
      then (case pactUriConfig v of
              None \<Rightarrow> Panics
            | Some c \<Rightarrow> Returns (PactWebReader (pactUri v) (Username c) (Password c)))
      else Returns (PactFileReader (pactUri v)))"

text \<open>
  Lines 152 to 160: read through the reader, then validate the document read.
\<close>

definition readPactFile ::
  "('rq, 'rs, 'x) pact_io \<Rightarrow> PactReader \<Rightarrow> ('rq, 'rs, 'x) world
     \<Rightarrow> ((error + addr) \<times> ('rq, 'rs, 'x) world) outcome" where
  "readPactFile io r w =
     (case Read io r w of
        (Inl err, w') \<Rightarrow> Returns (Inl err, w')
      | (Inr f, w') \<Rightarrow>
          (case docs w' f of
             None \<Rightarrow> Panics
           | Some d \<Rightarrow>
               (case FileValidate io d of
                  Some err \<Rightarrow> Returns (Inl err, w')
                | None \<Rightarrow> Returns (Inr f, w'))))"

definition getPactFile ::
  "('rq, 'rs, 'x) pact_io \<Rightarrow> ('a, 'rq, 'rs, 'x) pactFileVerfier \<Rightarrow> ('rq, 'rs, 'x) world
     \<Rightarrow> ((error + addr) \<times> ('rq, 'rs, 'x) world) outcome" where
  "getPactFile io v w =
     (case pactReader io v of
        Panics \<Rightarrow> Panics
      | Returns r \<Rightarrow> readPactFile io r w)"

text \<open>
  The two loops of \<^verbatim>\<open>VerifyState\<close> (lines 107 to 111 and 118 to 122): a \<^verbatim>\<open>range\<close>
  over the slice, appending each matching element to \<^verbatim>\<open>filteredInteractions\<close>, which
  starts as the nil slice.
\<close>

fun filterByDescription ::
  "string \<Rightarrow> ('rq, 'rs) Interaction list \<Rightarrow> ('rq, 'rs) Interaction list
     \<Rightarrow> ('rq, 'rs) Interaction list" where
  "filterByDescription description [] filteredInteractions = filteredInteractions"
| "filterByDescription description (val # rest) filteredInteractions =
     (if Description val = description
      then filterByDescription description rest (filteredInteractions @ [val])
      else filterByDescription description rest filteredInteractions)"

fun filterByState ::
  "string \<Rightarrow> ('rq, 'rs) Interaction list \<Rightarrow> ('rq, 'rs) Interaction list
     \<Rightarrow> ('rq, 'rs) Interaction list" where
  "filterByState state [] filteredInteractions = filteredInteractions"
| "filterByState state (val # rest) filteredInteractions =
     (if State val = state
      then filterByState state rest (filteredInteractions @ [val])
      else filterByState state rest filteredInteractions)"

text \<open>
  The assignment \<^verbatim>\<open>f.Interactions = filteredInteractions\<close> (lines 112 and 123): the
  object behind the pointer \<^verbatim>\<open>f\<close> gets a new field value, in the store.
\<close>

definition setInteractions ::
  "addr \<Rightarrow> ('rq, 'rs) Interaction list \<Rightarrow> ('rq, 'rs, 'x) world \<Rightarrow> ('rq, 'rs, 'x) world outcome" where
  "setInteractions f xs w =
     (case docs w f of
        None \<Rightarrow> Panics
      | Some d \<Rightarrow> Returns (w\<lparr>docs := (docs w)(f \<mapsto> d\<lparr>Interactions := xs\<rparr>)\<rparr>))"

text \<open>Lines 104 to 113: filter by description.\<close>

definition filterDescription ::
  "string \<Rightarrow> addr \<Rightarrow> ('rq, 'rs, 'x) world \<Rightarrow> ('rq, 'rs, 'x) world outcome" where
  "filterDescription description f w =
     (if description \<noteq> []
      then (case docs w f of
              None \<Rightarrow> Panics
            | Some d \<Rightarrow> setInteractions f (filterByDescription description (Interactions d) []) w)
      else Returns w)"

text \<open>Lines 115 to 124: filter by state.\<close>

definition filterState ::
  "string \<Rightarrow> addr \<Rightarrow> ('rq, 'rs, 'x) world \<Rightarrow> ('rq, 'rs, 'x) world outcome" where
  "filterState state f w =
     (if state \<noteq> []
      then (case docs w f of
              None \<Rightarrow> Panics
            | Some d \<Rightarrow> setInteractions f (filterByState state (Interactions d) []) w)
      else Returns w)"

text \<open>Lines 104 to 124, both filters in turn: the selection of \<^verbatim>\<open>VerifyState\<close>.\<close>

definition selectInteractions ::
  "string \<Rightarrow> string \<Rightarrow> addr \<Rightarrow> ('rq, 'rs, 'x) world \<Rightarrow> ('rq, 'rs, 'x) world outcome" where
  "selectInteractions description state f w =
     (case filterDescription description f w of
        Panics \<Rightarrow> Panics
      | Returns w' \<Rightarrow> filterState state f w')"

text \<open>
  The condition of line 126. Go's \<^verbatim>\<open>&&\<close> evaluates its right operand, which reads
  through \<^verbatim>\<open>f\<close>, only when the left one holds.
\<close>

definition noInteractionsFound ::
  "string \<Rightarrow> string \<Rightarrow> addr \<Rightarrow> ('rq, 'rs, 'x) world \<Rightarrow> bool outcome" where
  "noInteractionsFound description state f w =
     (if description \<noteq> [] \<or> state \<noteq> []
      then (case docs w f of
              None \<Rightarrow> Panics
            | Some d \<Rightarrow> Returns (length (Interactions d) = 0))
      else Returns False)"

text \<open>Lines 129 to 136: validate the interactions.\<close>

definition validateInteractions ::
  "('a, 'rq, 'rs, 'x) pactFileVerfier \<Rightarrow> addr \<Rightarrow> ('rq, 'rs, 'x) world
     \<Rightarrow> (error option \<times> ('rq, 'rs, 'x) world) outcome" where
  "validateInteractions v f w =
     (case Validate (validator v) f (stateActions v) w of
        ((ok, Some err), w') \<Rightarrow> Returns (Some err, w')
      | ((ok, None), w') \<Rightarrow>
          (if \<not> ok then Returns (Some errVerficationFailed, w') else Returns (None, w')))"

text \<open>Lines 98 to 136: the run once the verifier's own state has been checked.\<close>

definition verifyPactFile ::
  "('rq, 'rs, 'x) pact_io \<Rightarrow> ('a, 'rq, 'rs, 'x) pactFileVerfier \<Rightarrow> string \<Rightarrow> string
     \<Rightarrow> ('rq, 'rs, 'x) world \<Rightarrow> (error option \<times> ('rq, 'rs, 'x) world) outcome" where
  "verifyPactFile io v description state w =
     (case getPactFile io v w of
        Panics \<Rightarrow> Panics
      | Returns (Inl err, w') \<Rightarrow> Returns (Some err, w')
      | Returns (Inr f, w') \<Rightarrow>
          (case selectInteractions description state f w' of
             Panics \<Rightarrow> Panics
           | Returns w'' \<Rightarrow>
               (case noInteractionsFound description state f w'' of
                  Panics \<Rightarrow> Panics
                | Returns True \<Rightarrow> Returns (Some errNoFilteredInteractionsFound, w'')
                | Returns False \<Rightarrow> validateInteractions v f w'')))"

text \<open>\<^verbatim>\<open>VerifyState\<close> (lines 93 to 137).\<close>

definition VerifyState ::
  "('rq, 'rs, 'x) pact_io \<Rightarrow> ('a, 'rq, 'rs, 'x) pactFileVerfier \<Rightarrow> string \<Rightarrow> string
     \<Rightarrow> ('rq, 'rs, 'x) world \<Rightarrow> (error option \<times> ('rq, 'rs, 'x) world) outcome" where
  "VerifyState io v description state w =
     (case verifyInternalState v w of
        (Some err, w') \<Rightarrow> Returns (Some err, w')
      | (None, w') \<Rightarrow> verifyPactFile io v description state w')"

text \<open>\<^verbatim>\<open>Verify\<close> (lines 140 to 142).\<close>

definition Verify ::
  "('rq, 'rs, 'x) pact_io \<Rightarrow> ('a, 'rq, 'rs, 'x) pactFileVerfier
     \<Rightarrow> ('rq, 'rs, 'x) world \<Rightarrow> (error option \<times> ('rq, 'rs, 'x) world) outcome" where
  "Verify io v w = VerifyState io v [] [] w"

section \<open>The selection as the specification words it\<close>

text \<open>
  The spec's \<^verbatim>\<open>select(interactions, description?, state?)\<close>: the interactions whose
  description equals the description filter and whose state label equals the state
  filter, an empty filter meaning no constraint, in the original order. It is what the
  two loops of \<^verbatim>\<open>VerifyState\<close> are compared with.
\<close>

definition selectSpec ::
  "string \<Rightarrow> string \<Rightarrow> ('rq, 'rs) Interaction list \<Rightarrow> ('rq, 'rs) Interaction list" where
  "selectSpec description state xs =
     filter (\<lambda>i. (description = [] \<or> Description i = description)
                \<and> (state = [] \<or> State i = state)) xs"

section \<open>The validator as the specification describes it\<close>

text \<open>
  Modelled from the spec: the implementation of \<^verbatim>\<open>consumerValidator\<close>, whose method
  \<^verbatim>\<open>Validate\<close> line 130 calls, is missing. What follows is the per-interaction
  procedure of sections 4.3 to 4.6 of the spec. The events are a record of what a run
  does, in order: a setup callback run for a label, a request replayed, an actual
  response matched against the expected one, a teardown callback run for a label.
\<close>

datatype ('rq, 'rs) event =
    SetupRun string
  | RequestReplayed 'rq
  | ResponseMatched 'rs 'rs
  | TeardownRun string

text \<open>
  Modelled from the spec: the verdict of one interaction (missing with the validator).
  Section 3 gives it a match flag, the list of mismatches and any setup or transport
  error.
\<close>

record 'm verdict =
  matched :: bool
  mismatches :: "'m list"
  failure :: "error option"

text \<open>
  Modelled from the spec: a state action's callbacks are side-effecting and may fail
  (section 3), so the \<^verbatim>\<open>Action\<close> values that the missing validator runs act on the
  world and return an error or nil.
\<close>

type_synonym ('rq, 'rs, 'x) Action = "('rq, 'rs, 'x) world \<Rightarrow> error option \<times> ('rq, 'rs, 'x) world"

text \<open>
  Modelled from the spec: the missing provider invoker (section 4.4,
  \<^verbatim>\<open>invoke(expectedRequest) -> actualResponse | Error\<close>) and response matcher
  (section 4.5, the mismatches between the expected and the actual response), as
  parameters.
\<close>

record ('rq, 'rs, 'm, 'x) provider_side =
  Invoke :: "'rq \<Rightarrow> ('rq, 'rs, 'x) world \<Rightarrow> (error + 'rs) \<times> ('rq, 'rs, 'x) world"
  Match :: "'rs \<Rightarrow> 'rs \<Rightarrow> 'm list"

text \<open>
  Modelled from the spec: replaying and matching, missing with the validator. A
  transport failure is recorded as the interaction's failure without attempting a
  match (section 4.4); otherwise the interaction matched when there is no mismatch.
\<close>

definition replayAndMatch ::
  "('rq, 'rs, 'm, 'x) provider_side \<Rightarrow> ('rq, 'rs) Interaction \<Rightarrow> ('rq, 'rs, 'x) world
     \<Rightarrow> ('m verdict \<times> ('rq, 'rs) event list) \<times> ('rq, 'rs, 'x) world" where
  "replayAndMatch p i w =
     (case Invoke p (Request i) w of
        (Inl err, w') \<Rightarrow>
          ((\<lparr>matched = False, mismatches = [], failure = Some err\<rparr>,
            [RequestReplayed (Request i)]), w')
      | (Inr actual, w') \<Rightarrow>
          ((\<lparr>matched = (Match p (Response i) actual = []),
             mismatches = Match p (Response i) actual, failure = None\<rparr>,
            [RequestReplayed (Request i), ResponseMatched (Response i) actual]), w'))"

text \<open>
  Modelled from the spec: the missing bookkeeping of a teardown failure. Section 3
  counts it as a failure of the interaction; the first failure is kept.
\<close>

definition afterTeardown :: "error option \<Rightarrow> 'm verdict \<Rightarrow> 'm verdict" where
  "afterTeardown terr vd =
     (case terr of
        None \<Rightarrow> vd
      | Some err \<Rightarrow> (case failure vd of None \<Rightarrow> vd\<lparr>failure := Some err\<rparr> | Some _ \<Rightarrow> vd))"

text \<open>
  Modelled from the spec: the missing verification of one interaction (section 4.3).
  For a non-empty label with a registered action, setup runs first; if it fails, that
  failure is the verdict and nothing else happens; otherwise the request is replayed
  and the response matched, and teardown runs afterwards, whether or not the match
  succeeded. An interaction without a registered action is replayed and matched only.
\<close>

definition verifyInteraction ::
  "('rq, 'rs, 'm, 'x) provider_side \<Rightarrow> (string \<rightharpoonup> ('rq, 'rs, 'x) Action stateAction)
     \<Rightarrow> ('rq, 'rs) Interaction \<Rightarrow> ('rq, 'rs, 'x) world
     \<Rightarrow> ('m verdict \<times> ('rq, 'rs) event list) \<times> ('rq, 'rs, 'x) world" where
  "verifyInteraction p sa i w =
     (case (if State i \<noteq> [] then sa (State i) else None) of
        None \<Rightarrow> replayAndMatch p i w
      | Some a \<Rightarrow>
          (case setupAction a w of
             (Some err, w1) \<Rightarrow>
               ((\<lparr>matched = False, mismatches = [], failure = Some err\<rparr>,
                 [SetupRun (State i)]), w1)
           | (None, w1) \<Rightarrow>
               (case replayAndMatch p i w1 of
                  ((vd, tr), w2) \<Rightarrow>
                    (case teardownAction a w2 of
                       (terr, w3) \<Rightarrow>
                         ((afterTeardown terr vd,
                           SetupRun (State i) # tr @ [TeardownRun (State i)]), w3)))))"

text \<open>
  Modelled from the spec: the missing loop over the selected interactions (section
  4.6), sequential and in document order; a failing interaction does not stop it.
\<close>

fun verifyInteractions ::
  "('rq, 'rs, 'm, 'x) provider_side \<Rightarrow> (string \<rightharpoonup> ('rq, 'rs, 'x) Action stateAction)
     \<Rightarrow> ('rq, 'rs) Interaction list \<Rightarrow> ('rq, 'rs, 'x) world
     \<Rightarrow> ('m verdict list \<times> ('rq, 'rs) event list) \<times> ('rq, 'rs, 'x) world" where
  "verifyInteractions p sa [] w = (([], []), w)"
| "verifyInteractions p sa (i # rest) w =
     (case verifyInteraction p sa i w of
        ((vd, tr), w') \<Rightarrow>
          (case verifyInteractions p sa rest w' of
             ((vds, trs), w'') \<Rightarrow> ((vd # vds, tr @ trs), w'')))"

section \<open>Example collaborators\<close>

text \<open>
  A concrete world for the worked examples: requests are strings, responses are status
  codes, and \<open>outside\<close> is a log to which every collaborator appends its name when it
  is called. The example reader knows the paths \<^verbatim>\<open>pact\<close> (a document of three
  interactions), \<^verbatim>\<open>bad\<close> (a document that fails validation) and \<^verbatim>\<open>empty\<close> (a
  document with no interaction); every web read fails. The example validator keeps no
  state of its own and passes a document when every expected status is 200. The
  example verifier is configured through the verifier's own methods.
\<close>

definition demoInteraction1 :: "(string, nat) Interaction" where
  "demoInteraction1 = \<lparr>Description = ''a'', State = ''s'', Request = ''r1'', Response = 200\<rparr>"

definition demoInteraction2 :: "(string, nat) Interaction" where
  "demoInteraction2 = \<lparr>Description = ''b'', State = [], Request = ''r2'', Response = 404\<rparr>"

definition demoInteraction3 :: "(string, nat) Interaction" where
  "demoInteraction3 = \<lparr>Description = ''a'', State = ''t'', Request = ''r3'', Response = 200\<rparr>"

definition demoPact :: "(string, nat) PactFile" where
  "demoPact = \<lparr>Consumer = ''c'', Provider = ''p'',
               Interactions = [demoInteraction1, demoInteraction2, demoInteraction3]\<rparr>"

definition demoWorld :: "(string, nat, string list) world" where
  "demoWorld = \<lparr>docs = Map.empty, outside = []\<rparr>"

definition logged :: "string \<Rightarrow> (string, nat, string list) world \<Rightarrow> (string, nat, string list) world" where
  "logged msg w = w\<lparr>outside := outside w @ [msg]\<rparr>"

definition demoDocument :: "string \<Rightarrow> (string, nat) PactFile option" where
  "demoDocument path =
     (if path = ''pact'' then Some demoPact
      else if path = ''bad'' then Some (demoPact\<lparr>Consumer := []\<rparr>)
      else if path = ''empty'' then Some (demoPact\<lparr>Interactions := []\<rparr>)
      else None)"

definition demoIo :: "(string, nat, string list) pact_io" where
  "demoIo =
     \<lparr>IsWebUri = (\<lambda>uri. take 4 uri = ''http''),
      Read = (\<lambda>r w. case r of
                 PactFileReader path \<Rightarrow>
                   (case demoDocument path of
                      Some d \<Rightarrow> (Inr 0, logged ''read file'' (w\<lparr>docs := (docs w)(0 \<mapsto> d)\<rparr>))
                    | None \<Rightarrow> (Inl (CollaboratorError ''unreadable''), logged ''read file'' w))
               | PactWebReader uri username password \<Rightarrow>
                   (Inl (CollaboratorError ''unreachable''), logged ''read web'' w)),
      FileValidate = (\<lambda>d. if Consumer d = [] then Some (CollaboratorError ''invalid'') else None)\<rparr>"

definition demoValidator :: "(nat, string, nat, string list) consumerValidator" where
  "demoValidator =
     \<lparr>CanValidate = (\<lambda>w. (None, logged ''can validate'' w)),
      ProviderService = (\<lambda>c u w. w),
      Validate = (\<lambda>f sa w.
         (case docs w f of
            None \<Rightarrow> ((False, Some (CollaboratorError ''no document'')), logged ''validate'' w)
          | Some d \<Rightarrow> ((list_all (\<lambda>i. Response i = 200) (Interactions d), None), logged ''validate'' w)))\<rparr>"

definition demoVerifier :: "(nat, string, nat, string list) pactFileVerfier" where
  "demoVerifier =
     PactUri (Some \<lparr>Username = [], Password = []\<rparr>) ''pact'' None
       (fst (ServiceProvider ''p'' 1 2
              (HonoursPactWith ''c'' (NewPactFileVerifier demoValidator)) demoWorld))"

text \<open>
  A validator that reports a failure together with an error of its own, and, for the
  procedure of the specification, a provider that answers every request with status
  200 but times out on \<^verbatim>\<open>r3\<close>, with state actions for the labels \<^verbatim>\<open>s\<close> (both
  callbacks succeed) and \<^verbatim>\<open>t\<close> (setup fails). Every callback and every request
  appends to the log.
\<close>

definition failingValidator :: "(nat, string, nat, string list) consumerValidator" where
  "failingValidator =
     \<lparr>CanValidate = (\<lambda>w. (None, logged ''can validate'' w)),
      ProviderService = (\<lambda>c u w. w),
      Validate = (\<lambda>f sa w. ((False, Some (CollaboratorError ''setup failed'')), logged ''validate'' w))\<rparr>"

definition demoProvider :: "(string, nat, string, string list) provider_side" where
  "demoProvider =
     \<lparr>Invoke = (\<lambda>rq w. if rq = ''r3''
                        then (Inl (CollaboratorError ''timeout''), logged ''request'' w)
                        else (Inr 200, logged ''request'' w)),
      Match = (\<lambda>expected actual. if expected = actual then [] else [''status''])\<rparr>"

definition demoActions :: "string \<rightharpoonup> (string, nat, string list) Action stateAction" where
  "demoActions =
     [''s'' \<mapsto> \<lparr>setupAction = (\<lambda>w. (None, logged ''set up'' w)),
                teardownAction = (\<lambda>w. (None, logged ''tear down'' w))\<rparr>,
      ''t'' \<mapsto> \<lparr>setupAction = (\<lambda>w. (Some (CollaboratorError ''no fixture''), logged ''set up'' w)),
                teardownAction = (\<lambda>w. (None, logged ''tear down'' w))\<rparr>]"

section \<open>Properties\<close>

subsection \<open>Unfolding facts\<close>

lemmas demo_defs = demoInteraction1_def demoInteraction2_def demoInteraction3_def demoPact_def
  demoWorld_def logged_def demoDocument_def demoIo_def demoValidator_def demoVerifier_def
  NewPactFileVerifier_def HonoursPactWith_def ServiceProvider_def PactUri_def

lemmas model_defs = VerifyState_def verifyInternalState_def verifyPactFile_def getPactFile_def
  pactReader_def readPactFile_def selectInteractions_def filterDescription_def filterState_def
  setInteractions_def noInteractionsFound_def validateInteractions_def Verify_def

subsection \<open>The loops and the steps of a run\<close>

lemma filterByDescription_filter:
  "filterByDescription description xs acc = acc @ filter (\<lambda>i. Description i = description) xs"
  by (induction xs arbitrary: acc) simp_all

lemma filterByState_filter:
  "filterByState state xs acc = acc @ filter (\<lambda>i. State i = state) xs"
  by (induction xs arbitrary: acc) simp_all

lemma setInteractions_Some:
  "docs w f = Some d \<Longrightarrow>
   setInteractions f xs w = Returns (w\<lparr>docs := (docs w)(f \<mapsto> d\<lparr>Interactions := xs\<rparr>)\<rparr>)"
  by (simp add: setInteractions_def)

lemma filterDescription_Some:
  "docs w f = Some d \<Longrightarrow>
   filterDescription description f w =
     Returns (w\<lparr>docs := (docs w)(f \<mapsto> d\<lparr>Interactions := selectSpec description [] (Interactions d)\<rparr>)\<rparr>)"
  by (simp add: filterDescription_def setInteractions_def selectSpec_def
      filterByDescription_filter map_upd_triv)

lemma filterState_Some:
  "docs w f = Some d \<Longrightarrow>
   filterState state f w =
     Returns (w\<lparr>docs := (docs w)(f \<mapsto> d\<lparr>Interactions := selectSpec [] state (Interactions d)\<rparr>)\<rparr>)"
  by (simp add: filterState_def setInteractions_def selectSpec_def
      filterByState_filter map_upd_triv)

lemma selectSpec_compose:
  "selectSpec [] state (selectSpec description [] xs) = selectSpec description state xs"
  by (simp add: selectSpec_def conj_commute)

lemma selectInteractions_Some:
  "docs w f = Some d \<Longrightarrow>
   selectInteractions description state f w =
     Returns (w\<lparr>docs := (docs w)(f \<mapsto> d\<lparr>Interactions := selectSpec description state (Interactions d)\<rparr>)\<rparr>)"
  by (simp add: selectInteractions_def filterDescription_Some filterState_Some selectSpec_compose)

lemma readPactFile_Inr:
  "readPactFile io r w = Returns (Inr f, w') \<Longrightarrow>
   \<exists>d. Read io r w = (Inr f, w') \<and> docs w' f = Some d \<and> FileValidate io d = None"
  by (auto simp: readPactFile_def split: prod.splits sum.splits option.splits)

lemma getPactFile_Inr:
  "getPactFile io v w = Returns (Inr f, w') \<Longrightarrow>
   \<exists>r d. pactReader io v = Returns r \<and> Read io r w = (Inr f, w') \<and> docs w' f = Some d
      \<and> FileValidate io d = None"
  by (auto simp: getPactFile_def split: outcome.splits dest: readPactFile_Inr)

lemma noInteractionsFound_Some:
  "docs w f = Some d \<Longrightarrow>
   noInteractionsFound description state f w =
     Returns ((description \<noteq> [] \<or> state \<noteq> []) \<and> Interactions d = [])"
  by (simp add: noInteractionsFound_def)

lemma verifyPactFile_fetched:
  assumes "getPactFile io v w = Returns (Inr f, w')" and "docs w' f = Some d"
  shows "verifyPactFile io v description state w =
     (let sel = selectSpec description state (Interactions d);
          w'' = w'\<lparr>docs := (docs w')(f \<mapsto> d\<lparr>Interactions := sel\<rparr>)\<rparr>
      in if (description \<noteq> [] \<or> state \<noteq> []) \<and> sel = []
         then Returns (Some errNoFilteredInteractionsFound, w'')
         else validateInteractions v f w'')"
  using assms
  by (simp add: verifyPactFile_def selectInteractions_Some noInteractionsFound_Some Let_def)

lemma verifyInternalState_Validate_update:
  "verifyInternalState (v\<lparr>validator := (validator v)\<lparr>Validate := g\<rparr>\<rparr>) w = verifyInternalState v w"
  by (simp add: verifyInternalState_def)

lemma getPactFile_validator_update:
  "getPactFile io (v\<lparr>validator := val\<rparr>) w = getPactFile io v w"
  by (simp add: getPactFile_def pactReader_def split: option.splits)

lemma validateInteractions_CanValidate_update:
  "validateInteractions (v\<lparr>validator := (validator v)\<lparr>CanValidate := c\<rparr>\<rparr>) f w
     = validateInteractions v f w"
  by (simp add: validateInteractions_def)

lemma verifyPactFile_CanValidate_update:
  "verifyPactFile io (v\<lparr>validator := (validator v)\<lparr>CanValidate := c\<rparr>\<rparr>) description state w
     = verifyPactFile io v description state w"
  by (simp add: verifyPactFile_def getPactFile_validator_update validateInteractions_CanValidate_update
      split: outcome.splits sum.splits prod.splits bool.splits)

lemma verifyInteractions_append:
  "verifyInteractions p sa (xs @ ys) w =
     (case verifyInteractions p sa xs w of
        ((vds, trs), w') \<Rightarrow>
          (case verifyInteractions p sa ys w' of
             ((vds', trs'), w'') \<Rightarrow> ((vds @ vds', trs @ trs'), w'')))"
  by (induction xs arbitrary: w) (simp_all split: prod.splits)

lemma verifyInteractions_nth:
  "verifyInteractions p sa (xs @ i # ys) w =
     (case verifyInteractions p sa xs w of
        ((vds, trs), w1) \<Rightarrow>
          (case verifyInteraction p sa i w1 of
             ((vd, tr), w2) \<Rightarrow>
               (case verifyInteractions p sa ys w2 of
                  ((vds', trs'), w3) \<Rightarrow> ((vds @ vd # vds', trs @ tr @ trs'), w3))))"
  by (simp add: verifyInteractions_append split: prod.splits)

subsection \<open>Selection\<close>

text \<open>
  C1. For every pact document and every pair of filters, the selection that
  \<^verbatim>\<open>VerifyState\<close> performs on the fetched document leaves in it exactly the
  interactions whose description equals the description filter (when that filter is
  not empty) and whose state equals the state filter (when that filter is not empty),
  in their original order; the run then goes on with that selection.
\<close>

theorem VerifyState_selection:
  assumes "verifyInternalState v w = (None, w1)"
    and "getPactFile io v w1 = Returns (Inr f, w2)"
  shows "\<exists>d w3. docs w2 f = Some d
           \<and> w3 = w2\<lparr>docs := (docs w2)(f \<mapsto> d\<lparr>Interactions := selectSpec description state (Interactions d)\<rparr>)\<rparr>
           \<and> selectInteractions description state f w2 = Returns w3
           \<and> subseq (selectSpec description state (Interactions d)) (Interactions d)
           \<and> VerifyState io v description state w =
               (if (description \<noteq> [] \<or> state \<noteq> []) \<and> selectSpec description state (Interactions d) = []
                then Returns (Some errNoFilteredInteractionsFound, w3)
                else validateInteractions v f w3)"
proof -
  from getPactFile_Inr[OF assms(2)] obtain d where d: "docs w2 f = Some d"
    by blast
  have "subseq (selectSpec description state (Interactions d)) (Interactions d)"
    by (simp add: selectSpec_def)
  moreover have "VerifyState io v description state w = verifyPactFile io v description state w1"
    using assms(1) by (simp add: VerifyState_def)
  ultimately show ?thesis
    using d verifyPactFile_fetched[OF assms(2) d, of description state]
    by (simp add: selectInteractions_Some Let_def)
qed

theorem VerifyState_selection_witness:
  "verifyInternalState demoVerifier demoWorld = (None, \<lparr>docs = Map.empty, outside = [''can validate'']\<rparr>)
   \<and> getPactFile demoIo demoVerifier \<lparr>docs = Map.empty, outside = [''can validate'']\<rparr>
       = Returns (Inr 0, \<lparr>docs = [0 \<mapsto> demoPact], outside = [''can validate'', ''read file'']\<rparr>)
   \<and> selectInteractions ''a'' ''t'' 0 \<lparr>docs = [0 \<mapsto> demoPact], outside = [''can validate'', ''read file'']\<rparr>
       = Returns \<lparr>docs = [0 \<mapsto> demoPact\<lparr>Interactions := [demoInteraction3]\<rparr>],
                  outside = [''can validate'', ''read file'']\<rparr>
   \<and> VerifyState demoIo demoVerifier ''a'' ''t'' demoWorld
       = Returns (None, \<lparr>docs = [0 \<mapsto> demoPact\<lparr>Interactions := [demoInteraction3]\<rparr>],
                  outside = [''can validate'', ''read file'', ''validate'']\<rparr>)"
proof -
  let ?w1 = "\<lparr>docs = Map.empty, outside = [''can validate'']\<rparr> :: (string, nat, string list) world"
  let ?w2 = "\<lparr>docs = [0 \<mapsto> demoPact], outside = [''can validate'', ''read file'']\<rparr>
               :: (string, nat, string list) world"
  have h1: "verifyInternalState demoVerifier demoWorld = (None, ?w1)"
    by (simp add: demo_defs verifyInternalState_def)
  have h2: "getPactFile demoIo demoVerifier ?w1 = Returns (Inr 0, ?w2)"
    by (simp add: demo_defs getPactFile_def pactReader_def readPactFile_def)
  from VerifyState_selection[OF h1 h2, of "''a''" "''t''"]
  obtain d w3 where d: "docs ?w2 0 = Some d"
    and w3: "w3 = ?w2\<lparr>docs := (docs ?w2)(0 \<mapsto> d\<lparr>Interactions := selectSpec ''a'' ''t'' (Interactions d)\<rparr>)\<rparr>"
    and sel: "selectInteractions ''a'' ''t'' 0 ?w2 = Returns w3"
    and run: "VerifyState demoIo demoVerifier ''a'' ''t'' demoWorld =
          (if (''a'' \<noteq> [] \<or> ''t'' \<noteq> []) \<and> selectSpec ''a'' ''t'' (Interactions d) = []
           then Returns (Some errNoFilteredInteractionsFound, w3)
           else validateInteractions demoVerifier 0 w3)"
    by blast
  from d have d': "d = demoPact"
    by simp
  have w3': "w3 = \<lparr>docs = [0 \<mapsto> demoPact\<lparr>Interactions := [demoInteraction3]\<rparr>],
                      outside = [''can validate'', ''read file'']\<rparr>"
    unfolding w3 d' by (simp add: selectSpec_def demo_defs)
  have "selectSpec ''a'' ''t'' (Interactions demoPact) = [demoInteraction3]"
    by (simp add: selectSpec_def demo_defs)
  with run have "VerifyState demoIo demoVerifier ''a'' ''t'' demoWorld
       = Returns (None, \<lparr>docs = [0 \<mapsto> demoPact\<lparr>Interactions := [demoInteraction3]\<rparr>],
                  outside = [''can validate'', ''read file'', ''validate'']\<rparr>)"
    unfolding d' w3' by (simp add: demo_defs validateInteractions_def)
  with h1 h2 sel w3' show ?thesis
    by simp
qed

text \<open>
  C2. When at least one filter is not empty and the selection is empty,
  \<^verbatim>\<open>VerifyState\<close> returns \<^verbatim>\<open>errNoFilteredInteractionsFound\<close>, and it does so
  whatever the validator's \<^verbatim>\<open>Validate\<close> is: the world it leaves is the one the fetch
  left, with the document's interactions emptied. When both filters are empty, the
  document goes to the validation unchanged, also when it has no interaction.
\<close>

theorem VerifyState_no_interactions:
  fixes v :: "('a, 'rq, 'rs, 'x) pactFileVerfier"
  assumes "verifyInternalState v w = (None, w1)"
    and "getPactFile io v w1 = Returns (Inr f, w2)"
    and "docs w2 f = Some d"
  shows "((description \<noteq> [] \<or> state \<noteq> []) \<and> selectSpec description state (Interactions d) = [] \<longrightarrow>
            VerifyState io v description state w
              = Returns (Some errNoFilteredInteractionsFound,
                         w2\<lparr>docs := (docs w2)(f \<mapsto> d\<lparr>Interactions := []\<rparr>)\<rparr>)
          \<and> (\<forall>g. VerifyState io (v\<lparr>validator := (validator v)\<lparr>Validate := g\<rparr>\<rparr>) description state w
              = Returns (Some errNoFilteredInteractionsFound,
                         w2\<lparr>docs := (docs w2)(f \<mapsto> d\<lparr>Interactions := []\<rparr>)\<rparr>)))
       \<and> selectInteractions [] [] f w2 = Returns w2
       \<and> VerifyState io v [] [] w = validateInteractions v f w2"
proof -
  have run: "VerifyState io v' description' state' w = verifyPactFile io v' description' state' w1"
    if "verifyInternalState v' w = (None, w1)" for v' :: "('a, 'rq, 'rs, 'x) pactFileVerfier"
      and description' state'
    using that by (simp add: VerifyState_def)
  have none: "verifyPactFile io v' description state w1
               = Returns (Some errNoFilteredInteractionsFound,
                          w2\<lparr>docs := (docs w2)(f \<mapsto> d\<lparr>Interactions := []\<rparr>)\<rparr>)"
    if "getPactFile io v' w1 = Returns (Inr f, w2)"
      and "(description \<noteq> [] \<or> state \<noteq> []) \<and> selectSpec description state (Interactions d) = []"
    for v' :: "('a, 'rq, 'rs, 'x) pactFileVerfier"
    using that verifyPactFile_fetched[OF that(1) assms(3), of description state]
    by (simp add: Let_def)
  have unfiltered: "selectSpec [] [] (Interactions d) = Interactions d"
    by (simp add: selectSpec_def)
  have same: "w2\<lparr>docs := (docs w2)(f \<mapsto> d\<lparr>Interactions := Interactions d\<rparr>)\<rparr> = w2"
    using assms(3) by (simp add: map_upd_triv)
  have "selectInteractions [] [] f w2 = Returns w2"
    using selectInteractions_Some[OF assms(3), of "[]" "[]"] unfiltered same by simp
  moreover have "VerifyState io v [] [] w = validateInteractions v f w2"
    using run[OF assms(1), of "[]" "[]"] verifyPactFile_fetched[OF assms(2,3), of "[]" "[]"]
      unfiltered same
    by (simp add: Let_def)
  ultimately show ?thesis
    using run[OF assms(1)] none[OF assms(2)]
      run[of "v\<lparr>validator := (validator v)\<lparr>Validate := g\<rparr>\<rparr>" for g]
      none[of "v\<lparr>validator := (validator v)\<lparr>Validate := g\<rparr>\<rparr>" for g]
      assms(1,2)
    by (simp add: verifyInternalState_Validate_update getPactFile_validator_update)
qed

theorem VerifyState_no_interactions_witness:
  "verifyInternalState demoVerifier demoWorld = (None, \<lparr>docs = Map.empty, outside = [''can validate'']\<rparr>)
   \<and> getPactFile demoIo demoVerifier \<lparr>docs = Map.empty, outside = [''can validate'']\<rparr>
       = Returns (Inr 0, \<lparr>docs = [0 \<mapsto> demoPact], outside = [''can validate'', ''read file'']\<rparr>)
   \<and> selectSpec ''a'' ''x'' (Interactions demoPact) = []
   \<and> VerifyState demoIo demoVerifier ''a'' ''x'' demoWorld
       = Returns (Some errNoFilteredInteractionsFound,
                  \<lparr>docs = [0 \<mapsto> demoPact\<lparr>Interactions := []\<rparr>],
                   outside = [''can validate'', ''read file'']\<rparr>)
   \<and> getPactFile demoIo (demoVerifier\<lparr>pactUri := ''empty''\<rparr>)
         \<lparr>docs = Map.empty, outside = [''can validate'']\<rparr>
       = Returns (Inr 0, \<lparr>docs = [0 \<mapsto> demoPact\<lparr>Interactions := []\<rparr>],
                          outside = [''can validate'', ''read file'']\<rparr>)
   \<and> VerifyState demoIo (demoVerifier\<lparr>pactUri := ''empty''\<rparr>) [] [] demoWorld
       = Returns (None, \<lparr>docs = [0 \<mapsto> demoPact\<lparr>Interactions := []\<rparr>],
                         outside = [''can validate'', ''read file'', ''validate'']\<rparr>)"
proof -
  let ?w1 = "\<lparr>docs = Map.empty, outside = [''can validate'']\<rparr> :: (string, nat, string list) world"
  let ?w2 = "\<lparr>docs = [0 \<mapsto> demoPact], outside = [''can validate'', ''read file'']\<rparr>
               :: (string, nat, string list) world"
  let ?w2' = "\<lparr>docs = [0 \<mapsto> demoPact\<lparr>Interactions := []\<rparr>],
               outside = [''can validate'', ''read file'']\<rparr> :: (string, nat, string list) world"
  have h1: "verifyInternalState demoVerifier demoWorld = (None, ?w1)"
    by (simp add: demo_defs verifyInternalState_def)
  have h2: "getPactFile demoIo demoVerifier ?w1 = Returns (Inr 0, ?w2)"
    by (simp add: demo_defs getPactFile_def pactReader_def readPactFile_def)
  have h3: "docs ?w2 0 = Some demoPact"
    by simp
  have none: "selectSpec ''a'' ''x'' (Interactions demoPact) = []"
    by (simp add: selectSpec_def demo_defs)
  have k1: "verifyInternalState (demoVerifier\<lparr>pactUri := ''empty''\<rparr>) demoWorld = (None, ?w1)"
    by (simp add: demo_defs verifyInternalState_def)
  have k2: "getPactFile demoIo (demoVerifier\<lparr>pactUri := ''empty''\<rparr>) ?w1 = Returns (Inr 0, ?w2')"
    by (simp add: demo_defs getPactFile_def pactReader_def readPactFile_def)
  have k3: "docs ?w2' 0 = Some (demoPact\<lparr>Interactions := []\<rparr>)"
    by simp
  have a: "VerifyState demoIo demoVerifier ''a'' ''x'' demoWorld
       = Returns (Some errNoFilteredInteractionsFound, ?w2')"
    using VerifyState_no_interactions[OF h1 h2 h3, of "''a''" "''x''"] none by simp
  have b: "VerifyState demoIo (demoVerifier\<lparr>pactUri := ''empty''\<rparr>) [] [] demoWorld
       = Returns (None, \<lparr>docs = [0 \<mapsto> demoPact\<lparr>Interactions := []\<rparr>],
                         outside = [''can validate'', ''read file'', ''validate'']\<rparr>)"
    using VerifyState_no_interactions[OF k1 k2 k3, of "[]" "[]"]
    by (simp add: validateInteractions_def demo_defs)
  from h1 h2 none a k2 b show ?thesis
    by simp
qed

subsection \<open>Preconditions\<close>

text \<open>
  C3. With an empty consumer name \<^verbatim>\<open>VerifyState\<close> and \<^verbatim>\<open>Verify\<close> return
  \<^verbatim>\<open>errEmptyConsumer\<close>; with a consumer name and an empty provider name they return
  \<^verbatim>\<open>errEmptyProvider\<close>; in both cases the world is untouched, whatever the readers
  and the validator are. With both names set, the run starts with the validator's
  \<^verbatim>\<open>CanValidate\<close>, stops on its error, and otherwise goes on from the world it left;
  the rest of the run does not depend on \<^verbatim>\<open>CanValidate\<close>.
\<close>

theorem VerifyState_names_checked_first:
  fixes v :: "('a, 'rq, 'rs, 'x) pactFileVerfier"
  shows "(consumer v = [] \<longrightarrow>
            VerifyState io v description state w = Returns (Some errEmptyConsumer, w)
          \<and> Verify io v w = Returns (Some errEmptyConsumer, w))
       \<and> (consumer v \<noteq> [] \<and> provider v = [] \<longrightarrow>
            VerifyState io v description state w = Returns (Some errEmptyProvider, w)
          \<and> Verify io v w = Returns (Some errEmptyProvider, w))
       \<and> (consumer v \<noteq> [] \<and> provider v \<noteq> [] \<longrightarrow>
            verifyInternalState v w = CanValidate (validator v) w
          \<and> VerifyState io v description state w =
              (case CanValidate (validator v) w of
                 (Some err, w') \<Rightarrow> Returns (Some err, w')
               | (None, w') \<Rightarrow> verifyPactFile io v description state w')
          \<and> Verify io v w =
              (case CanValidate (validator v) w of
                 (Some err, w') \<Rightarrow> Returns (Some err, w')
               | (None, w') \<Rightarrow> verifyPactFile io v [] [] w')
          \<and> (\<forall>c w'. verifyPactFile io (v\<lparr>validator := (validator v)\<lparr>CanValidate := c\<rparr>\<rparr>) description state w'
                     = verifyPactFile io v description state w'))"
  by (simp add: VerifyState_def Verify_def verifyInternalState_def verifyPactFile_CanValidate_update)

theorem VerifyState_names_checked_first_witness:
  "consumer (NewPactFileVerifier demoValidator) = []
   \<and> VerifyState demoIo (NewPactFileVerifier demoValidator) ''a'' ''s'' demoWorld
       = Returns (Some errEmptyConsumer, demoWorld)
   \<and> Verify demoIo (NewPactFileVerifier demoValidator) demoWorld
       = Returns (Some errEmptyConsumer, demoWorld)
   \<and> consumer (HonoursPactWith ''c'' (NewPactFileVerifier demoValidator)) \<noteq> []
   \<and> provider (HonoursPactWith ''c'' (NewPactFileVerifier demoValidator)) = []
   \<and> VerifyState demoIo (HonoursPactWith ''c'' (NewPactFileVerifier demoValidator)) ''a'' ''s'' demoWorld
       = Returns (Some errEmptyProvider, demoWorld)
   \<and> consumer demoVerifier \<noteq> [] \<and> provider demoVerifier \<noteq> []
   \<and> CanValidate (validator demoVerifier) demoWorld = (None, \<lparr>docs = Map.empty, outside = [''can validate'']\<rparr>)
   \<and> VerifyState demoIo demoVerifier ''a'' ''s'' demoWorld
       = verifyPactFile demoIo demoVerifier ''a'' ''s'' \<lparr>docs = Map.empty, outside = [''can validate'']\<rparr>"
proof -
  let ?v0 = "NewPactFileVerifier demoValidator"
  let ?v1 = "HonoursPactWith ''c'' (NewPactFileVerifier demoValidator)"
  have c0: "consumer ?v0 = []"
    by (simp add: NewPactFileVerifier_def)
  have c1: "consumer ?v1 \<noteq> [] \<and> provider ?v1 = []"
    by (simp add: NewPactFileVerifier_def HonoursPactWith_def)
  have c2: "consumer demoVerifier \<noteq> [] \<and> provider demoVerifier \<noteq> []"
    by (simp add: demo_defs)
  have cv: "CanValidate (validator demoVerifier) demoWorld
              = (None, \<lparr>docs = Map.empty, outside = [''can validate'']\<rparr>)"
    by (simp add: demo_defs)
  from VerifyState_names_checked_first[of ?v0 demoIo "''a''" "''s''" demoWorld] c0
  have r0: "VerifyState demoIo ?v0 ''a'' ''s'' demoWorld = Returns (Some errEmptyConsumer, demoWorld)
            \<and> Verify demoIo ?v0 demoWorld = Returns (Some errEmptyConsumer, demoWorld)"
    by blast
  from VerifyState_names_checked_first[of ?v1 demoIo "''a''" "''s''" demoWorld] c1
  have r1: "VerifyState demoIo ?v1 ''a'' ''s'' demoWorld = Returns (Some errEmptyProvider, demoWorld)"
    by blast
  from VerifyState_names_checked_first[of demoVerifier demoIo "''a''" "''s''" demoWorld] c2
  have "VerifyState demoIo demoVerifier ''a'' ''s'' demoWorld =
              (case CanValidate (validator demoVerifier) demoWorld of
                 (Some err, w') \<Rightarrow> Returns (Some err, w')
               | (None, w') \<Rightarrow> verifyPactFile demoIo demoVerifier ''a'' ''s'' w')"
    by blast
  with cv have r2: "VerifyState demoIo demoVerifier ''a'' ''s'' demoWorld
       = verifyPactFile demoIo demoVerifier ''a'' ''s'' \<lparr>docs = Map.empty, outside = [''can validate'']\<rparr>"
    by simp
  from c0 c1 c2 cv r0 r1 r2 show ?thesis
    by simp
qed

subsection \<open>Fetching the document\<close>

text \<open>
  C5. When \<^verbatim>\<open>getPactFile\<close> returns an error, \<^verbatim>\<open>VerifyState\<close> returns that very
  error and leaves the world as the fetch left it, for every pair of filters and
  whatever the validator's \<^verbatim>\<open>Validate\<close> is. A failed read and a failed validation of
  the document are both such errors of \<^verbatim>\<open>getPactFile\<close>.
\<close>

theorem VerifyState_fetch_failure:
  fixes v :: "('a, 'rq, 'rs, 'x) pactFileVerfier"
  assumes "verifyInternalState v w = (None, w1)"
  shows "(getPactFile io v w1 = Returns (Inl err, w2) \<longrightarrow>
            VerifyState io v description state w = Returns (Some err, w2)
          \<and> (\<forall>g. VerifyState io (v\<lparr>validator := (validator v)\<lparr>Validate := g\<rparr>\<rparr>) description state w
                   = Returns (Some err, w2)))
       \<and> (pactReader io v = Returns r \<and> Read io r w1 = (Inl err, w2) \<longrightarrow>
            getPactFile io v w1 = Returns (Inl err, w2))
       \<and> (pactReader io v = Returns r \<and> Read io r w1 = (Inr f, w2) \<and> docs w2 f = Some d
            \<and> FileValidate io d = Some err \<longrightarrow>
            getPactFile io v w1 = Returns (Inl err, w2))"
proof -
  have run: "VerifyState io v' description state w = Returns (Some err, w2)"
    if "verifyInternalState v' w = (None, w1)" and "getPactFile io v' w1 = Returns (Inl err, w2)"
    for v' :: "('a, 'rq, 'rs, 'x) pactFileVerfier"
    using that by (simp add: VerifyState_def verifyPactFile_def)
  have a: "getPactFile io v w1 = Returns (Inl err, w2) \<longrightarrow>
            VerifyState io v description state w = Returns (Some err, w2)
          \<and> (\<forall>g. VerifyState io (v\<lparr>validator := (validator v)\<lparr>Validate := g\<rparr>\<rparr>) description state w
                   = Returns (Some err, w2))"
    using run[of v] run[of "v\<lparr>validator := (validator v)\<lparr>Validate := g\<rparr>\<rparr>" for g] assms
    by (simp add: verifyInternalState_Validate_update getPactFile_validator_update)
  have b: "pactReader io v = Returns r \<and> Read io r w1 = (Inl err, w2) \<longrightarrow>
            getPactFile io v w1 = Returns (Inl err, w2)"
    by (simp add: getPactFile_def readPactFile_def)
  have c: "pactReader io v = Returns r \<and> Read io r w1 = (Inr f, w2) \<and> docs w2 f = Some d
            \<and> FileValidate io d = Some err \<longrightarrow>
            getPactFile io v w1 = Returns (Inl err, w2)"
    by (simp add: getPactFile_def readPactFile_def)
  from a b c show ?thesis
    by blast
qed

theorem VerifyState_fetch_failure_witness:
  "verifyInternalState (demoVerifier\<lparr>pactUri := ''https://broker''\<rparr>) demoWorld
       = (None, \<lparr>docs = Map.empty, outside = [''can validate'']\<rparr>)
   \<and> pactReader demoIo (demoVerifier\<lparr>pactUri := ''https://broker''\<rparr>)
       = Returns (PactWebReader ''https://broker'' [] [])
   \<and> Read demoIo (PactWebReader ''https://broker'' [] []) \<lparr>docs = Map.empty, outside = [''can validate'']\<rparr>
       = (Inl (CollaboratorError ''unreachable''),
          \<lparr>docs = Map.empty, outside = [''can validate'', ''read web'']\<rparr>)
   \<and> getPactFile demoIo (demoVerifier\<lparr>pactUri := ''https://broker''\<rparr>)
         \<lparr>docs = Map.empty, outside = [''can validate'']\<rparr>
       = Returns (Inl (CollaboratorError ''unreachable''),
                  \<lparr>docs = Map.empty, outside = [''can validate'', ''read web'']\<rparr>)
   \<and> VerifyState demoIo (demoVerifier\<lparr>pactUri := ''https://broker''\<rparr>) ''a'' ''s'' demoWorld
       = Returns (Some (CollaboratorError ''unreachable''),
                  \<lparr>docs = Map.empty, outside = [''can validate'', ''read web'']\<rparr>)
   \<and> verifyInternalState (demoVerifier\<lparr>pactUri := ''bad''\<rparr>) demoWorld
       = (None, \<lparr>docs = Map.empty, outside = [''can validate'']\<rparr>)
   \<and> pactReader demoIo (demoVerifier\<lparr>pactUri := ''bad''\<rparr>) = Returns (PactFileReader ''bad'')
   \<and> Read demoIo (PactFileReader ''bad'') \<lparr>docs = Map.empty, outside = [''can validate'']\<rparr>
       = (Inr 0, \<lparr>docs = [0 \<mapsto> demoPact\<lparr>Consumer := []\<rparr>],
                  outside = [''can validate'', ''read file'']\<rparr>)
   \<and> FileValidate demoIo (demoPact\<lparr>Consumer := []\<rparr>) = Some (CollaboratorError ''invalid'')
   \<and> getPactFile demoIo (demoVerifier\<lparr>pactUri := ''bad''\<rparr>)
         \<lparr>docs = Map.empty, outside = [''can validate'']\<rparr>
       = Returns (Inl (CollaboratorError ''invalid''),
                  \<lparr>docs = [0 \<mapsto> demoPact\<lparr>Consumer := []\<rparr>],
                   outside = [''can validate'', ''read file'']\<rparr>)
   \<and> VerifyState demoIo (demoVerifier\<lparr>pactUri := ''bad''\<rparr>) ''a'' ''s'' demoWorld
       = Returns (Some (CollaboratorError ''invalid''),
                  \<lparr>docs = [0 \<mapsto> demoPact\<lparr>Consumer := []\<rparr>],
                   outside = [''can validate'', ''read file'']\<rparr>)"
proof -
  let ?w1 = "\<lparr>docs = Map.empty, outside = [''can validate'']\<rparr> :: (string, nat, string list) world"
  let ?w2 = "\<lparr>docs = Map.empty, outside = [''can validate'', ''read web'']\<rparr>
               :: (string, nat, string list) world"
  let ?u2 = "\<lparr>docs = [0 \<mapsto> demoPact\<lparr>Consumer := []\<rparr>], outside = [''can validate'', ''read file'']\<rparr>
               :: (string, nat, string list) world"
  let ?web = "demoVerifier\<lparr>pactUri := ''https://broker''\<rparr>"
  let ?bad = "demoVerifier\<lparr>pactUri := ''bad''\<rparr>"
  let ?unreachable = "CollaboratorError ''unreachable''"
  let ?invalid = "CollaboratorError ''invalid''"
  have h1: "verifyInternalState ?web demoWorld = (None, ?w1)"
    by (simp add: demo_defs verifyInternalState_def)
  have p1: "pactReader demoIo ?web = Returns (PactWebReader ''https://broker'' [] [])"
    by (simp add: demo_defs pactReader_def)
  have r1: "Read demoIo (PactWebReader ''https://broker'' [] []) ?w1 = (Inl ?unreachable, ?w2)"
    by (simp add: demo_defs)
  have h2: "verifyInternalState ?bad demoWorld = (None, ?w1)"
    by (simp add: demo_defs verifyInternalState_def)
  have p2: "pactReader demoIo ?bad = Returns (PactFileReader ''bad'')"
    by (simp add: demo_defs pactReader_def)
  have r2: "Read demoIo (PactFileReader ''bad'') ?w1 = (Inr 0, ?u2)"
    by (simp add: demo_defs)
  have d2: "docs ?u2 0 = Some (demoPact\<lparr>Consumer := []\<rparr>)"
    by simp
  have v2: "FileValidate demoIo (demoPact\<lparr>Consumer := []\<rparr>) = Some ?invalid"
    by (simp add: demo_defs)
  note web = VerifyState_fetch_failure[OF h1, where io = demoIo and err = ?unreachable
      and ?w2.0 = "?w2" and r = "PactWebReader ''https://broker'' [] []"
      and description = "''a''" and state = "''s''"]
  note bad = VerifyState_fetch_failure[OF h2, where io = demoIo and err = ?invalid
      and ?w2.0 = "?u2" and r = "PactFileReader ''bad''" and f = 0
      and d = "demoPact\<lparr>Consumer := []\<rparr>" and description = "''a''" and state = "''s''"]
  from web p1 r1 have g1: "getPactFile demoIo ?web ?w1 = Returns (Inl ?unreachable, ?w2)"
    by blast
  from web g1 have e1: "VerifyState demoIo ?web ''a'' ''s'' demoWorld = Returns (Some ?unreachable, ?w2)"
    by blast
  from bad p2 r2 d2 v2 have g2: "getPactFile demoIo ?bad ?w1 = Returns (Inl ?invalid, ?u2)"
    by blast
  from bad g2 have e2: "VerifyState demoIo ?bad ''a'' ''s'' demoWorld = Returns (Some ?invalid, ?u2)"
    by blast
  show ?thesis
    by (intro conjI) (rule h1 p1 r1 g1 e1 h2 p2 r2 v2 g2 e2)+
qed

text \<open>
  C6. \<^verbatim>\<open>getPactFile\<close> reads through the web reader, built from the URI and the
  configured user name and password, when the URI is a web URI, and through the file
  reader for that path otherwise. A document is returned only after its validation
  has passed; a failed read or validation is returned as the error. \<^verbatim>\<open>PactUri\<close>
  with a default configuration always leaves a configuration in place.
\<close>

theorem getPactFile_reader_by_uri:
  fixes v :: "('a, 'rq, 'rs, 'x) pactFileVerfier"
  shows "(IsWebUri io (pactUri v) \<and> pactUriConfig v = Some c \<longrightarrow>
            getPactFile io v w
              = readPactFile io (PactWebReader (pactUri v) (Username c) (Password c)) w)
       \<and> (\<not> IsWebUri io (pactUri v) \<longrightarrow>
            getPactFile io v w = readPactFile io (PactFileReader (pactUri v)) w)
       \<and> (Read io r w = (Inl err, w') \<longrightarrow> readPactFile io r w = Returns (Inl err, w'))
       \<and> (Read io r w = (Inr f, w') \<and> docs w' f = Some d \<longrightarrow>
            readPactFile io r w
              = Returns (case FileValidate io d of None \<Rightarrow> Inr f | Some err \<Rightarrow> Inl err, w'))
       \<and> (getPactFile io v w = Returns (Inr f, w') \<longrightarrow>
            (\<exists>r d. Read io r w = (Inr f, w') \<and> docs w' f = Some d \<and> FileValidate io d = None))
       \<and> pactUri (PactUri (Some c0) uri cfg v) = uri
       \<and> pactUriConfig (PactUri (Some c0) uri cfg v) = Some (case cfg of None \<Rightarrow> c0 | Some c' \<Rightarrow> c')"
proof -
  have "getPactFile io v w = Returns (Inr f, w') \<longrightarrow>
            (\<exists>r d. Read io r w = (Inr f, w') \<and> docs w' f = Some d \<and> FileValidate io d = None)"
    using getPactFile_Inr[of io v w f w'] by blast
  then show ?thesis
    by (simp add: getPactFile_def pactReader_def readPactFile_def PactUri_def
        split: option.splits)
qed

theorem getPactFile_reader_by_uri_witness:
  "IsWebUri demoIo (pactUri (PactUri (Some \<lparr>Username = [], Password = []\<rparr>) ''https://broker''
        (Some \<lparr>Username = ''u'', Password = ''pw''\<rparr>) demoVerifier))
   \<and> pactUriConfig (PactUri (Some \<lparr>Username = [], Password = []\<rparr>) ''https://broker''
        (Some \<lparr>Username = ''u'', Password = ''pw''\<rparr>) demoVerifier)
       = Some \<lparr>Username = ''u'', Password = ''pw''\<rparr>
   \<and> getPactFile demoIo (PactUri (Some \<lparr>Username = [], Password = []\<rparr>) ''https://broker''
        (Some \<lparr>Username = ''u'', Password = ''pw''\<rparr>) demoVerifier) demoWorld
       = readPactFile demoIo (PactWebReader ''https://broker'' ''u'' ''pw'') demoWorld
   \<and> Read demoIo (PactWebReader ''https://broker'' ''u'' ''pw'') demoWorld
       = (Inl (CollaboratorError ''unreachable''), \<lparr>docs = Map.empty, outside = [''read web'']\<rparr>)
   \<and> readPactFile demoIo (PactWebReader ''https://broker'' ''u'' ''pw'') demoWorld
       = Returns (Inl (CollaboratorError ''unreachable''), \<lparr>docs = Map.empty, outside = [''read web'']\<rparr>)
   \<and> \<not> IsWebUri demoIo (pactUri demoVerifier)
   \<and> getPactFile demoIo demoVerifier demoWorld = readPactFile demoIo (PactFileReader ''pact'') demoWorld
   \<and> Read demoIo (PactFileReader ''pact'') demoWorld
       = (Inr 0, \<lparr>docs = [0 \<mapsto> demoPact], outside = [''read file'']\<rparr>)
   \<and> FileValidate demoIo demoPact = None
   \<and> readPactFile demoIo (PactFileReader ''pact'') demoWorld
       = Returns (Inr 0, \<lparr>docs = [0 \<mapsto> demoPact], outside = [''read file'']\<rparr>)
   \<and> getPactFile demoIo demoVerifier demoWorld
       = Returns (Inr 0, \<lparr>docs = [0 \<mapsto> demoPact], outside = [''read file'']\<rparr>)
   \<and> (\<exists>r d. Read demoIo r demoWorld = (Inr 0, \<lparr>docs = [0 \<mapsto> demoPact], outside = [''read file'']\<rparr>)
          \<and> docs \<lparr>docs = [0 \<mapsto> demoPact], outside = [''read file'']\<rparr> 0 = Some d
          \<and> FileValidate demoIo d = None)"
proof -
  let ?cfg = "\<lparr>Username = ''u'', Password = ''pw''\<rparr>"
  let ?web = "PactUri (Some \<lparr>Username = [], Password = []\<rparr>) ''https://broker'' (Some ?cfg) demoVerifier"
  let ?w = "\<lparr>docs = [0 \<mapsto> demoPact], outside = [''read file'']\<rparr> :: (string, nat, string list) world"
  let ?u = "\<lparr>docs = Map.empty, outside = [''read web'']\<rparr> :: (string, nat, string list) world"
  let ?webReader = "PactWebReader ''https://broker'' ''u'' ''pw''"
  let ?unreachable = "CollaboratorError ''unreachable''"
  have web: "IsWebUri demoIo (pactUri ?web)"
    by (simp add: demo_defs)
  have nonweb: "\<not> IsWebUri demoIo (pactUri demoVerifier)"
    by (simp add: demo_defs)
  have path: "pactUri demoVerifier = ''pact''"
    by (simp add: demo_defs)
  have rd: "Read demoIo (PactFileReader ''pact'') demoWorld = (Inr 0, ?w)"
    by (simp add: demo_defs)
  have doc: "docs ?w 0 = Some demoPact"
    by simp
  have ok: "FileValidate demoIo demoPact = None"
    by (simp add: demo_defs)
  have rw: "Read demoIo ?webReader demoWorld = (Inl ?unreachable, ?u)"
    by (simp add: demo_defs)
  from getPactFile_reader_by_uri[where io = demoIo and v = demoVerifier and c = "?cfg"
      and w = demoWorld and r = "?webReader" and err = "?unreachable" and w' = "?u"
      and f = 0 and d = demoPact and ?c0.0 = "\<lparr>Username = [], Password = []\<rparr>"
      and uri = "''https://broker''" and cfg = "Some ?cfg"]
  have uri: "pactUri ?web = ''https://broker''"
    and cfg: "pactUriConfig ?web = Some ?cfg"
    by simp_all
  from getPactFile_reader_by_uri[where io = demoIo and v = "?web" and c = "?cfg" and w = demoWorld
      and r = "?webReader" and err = "?unreachable" and w' = "?u"
      and f = 0 and d = demoPact and ?c0.0 = "?cfg" and uri = "[]" and cfg = None] web cfg uri
  have a: "getPactFile demoIo ?web demoWorld = readPactFile demoIo ?webReader demoWorld"
    by simp
  from getPactFile_reader_by_uri[where io = demoIo and v = demoVerifier and c = "?cfg"
      and r = "?webReader" and w = demoWorld and err = "?unreachable" and w' = "?u"
      and f = 0 and d = demoPact and ?c0.0 = "?cfg" and uri = "[]" and cfg = None] rw
  have a': "readPactFile demoIo ?webReader demoWorld = Returns (Inl ?unreachable, ?u)"
    by blast
  from getPactFile_reader_by_uri[where io = demoIo and v = demoVerifier and c = "?cfg"
      and w = demoWorld and r = "?webReader" and err = "?unreachable" and w' = "?u"
      and f = 0 and d = demoPact and ?c0.0 = "?cfg" and uri = "[]" and cfg = None] nonweb path
  have b: "getPactFile demoIo demoVerifier demoWorld = readPactFile demoIo (PactFileReader ''pact'') demoWorld"
    by simp
  from getPactFile_reader_by_uri[where io = demoIo and v = demoVerifier and c = "?cfg"
      and w = demoWorld and r = "PactFileReader ''pact''" and err = "?unreachable"
      and w' = "?w" and f = 0 and d = demoPact and ?c0.0 = "?cfg" and uri = "[]" and cfg = None]
    rd doc ok
  have c: "readPactFile demoIo (PactFileReader ''pact'') demoWorld = Returns (Inr 0, ?w)"
    by simp
  from b c have g: "getPactFile demoIo demoVerifier demoWorld = Returns (Inr 0, ?w)"
    by simp
  from getPactFile_reader_by_uri[where io = demoIo and v = demoVerifier and c = "?cfg"
      and w = demoWorld and r = "?webReader" and err = "?unreachable"
      and w' = "?w" and f = 0 and d = demoPact and ?c0.0 = "?cfg" and uri = "[]" and cfg = None] g
  have e: "\<exists>r d. Read demoIo r demoWorld = (Inr 0, ?w) \<and> docs ?w 0 = Some d \<and> FileValidate demoIo d = None"
    by blast
  show ?thesis
    by (intro conjI) (rule web cfg a rw a' nonweb b rd ok c g e)+
qed

subsection \<open>Registering state actions\<close>

text \<open>
  C8. \<^verbatim>\<open>ProviderState\<close> with the empty label leaves the verifier as it is. With
  another label, the map of state actions afterwards holds exactly the given pair at
  that label, whatever was registered there before, every other label keeps its
  entry, and no other field of the verifier changes.
\<close>

theorem ProviderState_registers:
  fixes v :: "('a, 'rq, 'rs, 'x) pactFileVerfier"
  shows "(state = [] \<longrightarrow> ProviderState state setup teardown v = v)
       \<and> (state \<noteq> [] \<longrightarrow>
            stateActions (ProviderState state setup teardown v) state
              = Some \<lparr>setupAction = setup, teardownAction = teardown\<rparr>
          \<and> (\<forall>l. l \<noteq> state \<longrightarrow>
                stateActions (ProviderState state setup teardown v) l = stateActions v l)
          \<and> ProviderState state setup teardown v
              = v\<lparr>stateActions := (stateActions v)(state \<mapsto> \<lparr>setupAction = setup, teardownAction = teardown\<rparr>)\<rparr>
          \<and> ProviderState state setup teardown (ProviderState state setup' teardown' v)
              = ProviderState state setup teardown v)
       \<and> provider (ProviderState state setup teardown v) = provider v
       \<and> consumer (ProviderState state setup teardown v) = consumer v
       \<and> pactUri (ProviderState state setup teardown v) = pactUri v
       \<and> pactUriConfig (ProviderState state setup teardown v) = pactUriConfig v
       \<and> validator (ProviderState state setup teardown v) = validator v"
  by (simp add: ProviderState_def)

theorem ProviderState_registers_witness:
  "ProviderState [] 1 2 demoVerifier = demoVerifier
   \<and> stateActions (ProviderState ''s'' 3 4 (ProviderState ''t'' 5 6 (ProviderState ''s'' 1 2 demoVerifier))) ''s''
       = Some \<lparr>setupAction = 3, teardownAction = 4\<rparr>
   \<and> stateActions (ProviderState ''s'' 3 4 (ProviderState ''t'' 5 6 (ProviderState ''s'' 1 2 demoVerifier))) ''t''
       = Some \<lparr>setupAction = 5, teardownAction = 6\<rparr>
   \<and> stateActions (ProviderState ''s'' 3 4 (ProviderState ''t'' 5 6 (ProviderState ''s'' 1 2 demoVerifier))) ''u''
       = None"
proof -
  let ?v1 = "ProviderState ''t'' 5 6 (ProviderState ''s'' 1 2 demoVerifier)"
  have ne: "''s'' \<noteq> []" "''t'' \<noteq> ''s''" "''u'' \<noteq> ''s''"
    by simp_all
  have old: "stateActions ?v1 ''t'' = Some \<lparr>setupAction = 5, teardownAction = 6\<rparr>
             \<and> stateActions ?v1 ''u'' = None"
    by (simp add: ProviderState_def demo_defs)
  from ProviderState_registers[of "[]" 1 2 demoVerifier]
  have a: "ProviderState [] 1 2 demoVerifier = demoVerifier"
    by simp
  from ProviderState_registers[of "''s''" 3 4 ?v1] ne
  have b: "stateActions (ProviderState ''s'' 3 4 ?v1) ''s'' = Some \<lparr>setupAction = 3, teardownAction = 4\<rparr>
           \<and> stateActions (ProviderState ''s'' 3 4 ?v1) ''t'' = stateActions ?v1 ''t''
           \<and> stateActions (ProviderState ''s'' 3 4 ?v1) ''u'' = stateActions ?v1 ''u''"
    by simp
  from b old have c: "stateActions (ProviderState ''s'' 3 4 ?v1) ''s'' = Some \<lparr>setupAction = 3, teardownAction = 4\<rparr>"
    and d: "stateActions (ProviderState ''s'' 3 4 ?v1) ''t'' = Some \<lparr>setupAction = 5, teardownAction = 6\<rparr>"
    and e: "stateActions (ProviderState ''s'' 3 4 ?v1) ''u'' = None"
    by simp_all
  show ?thesis
    by (intro conjI) (rule a c d e)+
qed

subsection \<open>The unfiltered run\<close>

text \<open>
  C10. \<^verbatim>\<open>Verify\<close> returns what \<^verbatim>\<open>VerifyState\<close> returns for two empty filters,
  and with two empty filters neither filter step touches the document and the
  check for an empty selection never fires.
\<close>

theorem Verify_is_VerifyState_unfiltered:
  "Verify io v w = VerifyState io v [] [] w
   \<and> filterDescription [] f w' = Returns w'
   \<and> filterState [] f w' = Returns w'
   \<and> selectInteractions [] [] f w' = Returns w'
   \<and> noInteractionsFound [] [] f w' = Returns False"
  by (simp add: Verify_def selectInteractions_def filterDescription_def filterState_def
      noInteractionsFound_def)

theorem Verify_is_VerifyState_unfiltered_witness:
  "Verify demoIo demoVerifier demoWorld = VerifyState demoIo demoVerifier [] [] demoWorld
   \<and> Verify demoIo demoVerifier demoWorld
       = Returns (Some errVerficationFailed,
                  \<lparr>docs = [0 \<mapsto> demoPact], outside = [''can validate'', ''read file'', ''validate'']\<rparr>)
   \<and> Verify demoIo (NewPactFileVerifier demoValidator) demoWorld
       = VerifyState demoIo (NewPactFileVerifier demoValidator) [] [] demoWorld
   \<and> Verify demoIo (NewPactFileVerifier demoValidator) demoWorld
       = Returns (Some errEmptyConsumer, demoWorld)"
proof -
  have a: "VerifyState demoIo demoVerifier [] [] demoWorld
       = Returns (Some errVerficationFailed,
                  \<lparr>docs = [0 \<mapsto> demoPact], outside = [''can validate'', ''read file'', ''validate'']\<rparr>)"
    by (simp add: demo_defs model_defs)
  have b: "VerifyState demoIo (NewPactFileVerifier demoValidator) [] [] demoWorld
       = Returns (Some errEmptyConsumer, demoWorld)"
    by (simp add: demo_defs model_defs)
  have c: "Verify demoIo demoVerifier demoWorld = VerifyState demoIo demoVerifier [] [] demoWorld"
    using Verify_is_VerifyState_unfiltered[of demoIo demoVerifier demoWorld 0 demoWorld]
    by (rule conjunct1)
  have d: "Verify demoIo (NewPactFileVerifier demoValidator) demoWorld
       = VerifyState demoIo (NewPactFileVerifier demoValidator) [] [] demoWorld"
    using Verify_is_VerifyState_unfiltered[of demoIo "NewPactFileVerifier demoValidator" demoWorld 0 demoWorld]
    by (rule conjunct1)
  from a b c d show ?thesis
    by simp
qed

subsection \<open>The result of the validation\<close>

text \<open>
  C4, as stated, fails: a validator may report a failure through its error result, and
  line 131 returns that error, not \<^verbatim>\<open>errVerficationFailed\<close>. Here the validator
  returns \<^verbatim>\<open>(false, err)\<close> and \<^verbatim>\<open>VerifyState\<close> returns \<^verbatim>\<open>err\<close>.
\<close>

theorem VerifyState_generic_failure_counterexample:
  "Validate (validator (demoVerifier\<lparr>validator := failingValidator\<rparr>)) 0
      (stateActions (demoVerifier\<lparr>validator := failingValidator\<rparr>))
      \<lparr>docs = [0 \<mapsto> demoPact], outside = [''can validate'', ''read file'']\<rparr>
     = ((False, Some (CollaboratorError ''setup failed'')),
        \<lparr>docs = [0 \<mapsto> demoPact], outside = [''can validate'', ''read file'', ''validate'']\<rparr>)
   \<and> VerifyState demoIo (demoVerifier\<lparr>validator := failingValidator\<rparr>) [] [] demoWorld
     = Returns (Some (CollaboratorError ''setup failed''),
                \<lparr>docs = [0 \<mapsto> demoPact], outside = [''can validate'', ''read file'', ''validate'']\<rparr>)
   \<and> VerifyState demoIo (demoVerifier\<lparr>validator := failingValidator\<rparr>) [] [] demoWorld
     \<noteq> Returns (Some errVerficationFailed,
                \<lparr>docs = [0 \<mapsto> demoPact], outside = [''can validate'', ''read file'', ''validate'']\<rparr>)"
  by (simp add: failingValidator_def demo_defs model_defs)

text \<open>
  C4, amended. For every run that reaches the validator, \<^verbatim>\<open>VerifyState\<close> returns
  nil exactly when the validator returns \<^verbatim>\<open>true\<close> and no error; when the validator
  returns \<^verbatim>\<open>false\<close> and no error, the result is the generic
  \<^verbatim>\<open>errVerficationFailed\<close>; when the validator returns an error of its own, that
  error is the result, whatever the flag.
\<close>

theorem VerifyState_result_of_validation:
  fixes v :: "('a, 'rq, 'rs, 'x) pactFileVerfier"
  assumes "verifyInternalState v w = (None, w1)"
    and "getPactFile io v w1 = Returns (Inr f, w2)"
    and "selectInteractions description state f w2 = Returns w3"
    and "noInteractionsFound description state f w3 = Returns False"
    and "Validate (validator v) f (stateActions v) w3 = ((ok, err), w4)"
  shows "VerifyState io v description state w
           = Returns (case err of Some e \<Rightarrow> Some e
                      | None \<Rightarrow> if ok then None else Some errVerficationFailed, w4)
       \<and> (VerifyState io v description state w = Returns (None, w4) \<longleftrightarrow> ok \<and> err = None)
       \<and> (\<not> ok \<and> err = None \<longrightarrow>
            VerifyState io v description state w = Returns (Some errVerficationFailed, w4))
       \<and> (\<forall>e. err = Some e \<longrightarrow> VerifyState io v description state w = Returns (Some e, w4))"
proof -
  have "VerifyState io v description state w = validateInteractions v f w3"
    using assms(1-4) by (simp add: VerifyState_def verifyPactFile_def)
  then have run: "VerifyState io v description state w
           = Returns (case err of Some e \<Rightarrow> Some e
                      | None \<Rightarrow> if ok then None else Some errVerficationFailed, w4)"
    using assms(5) by (simp add: validateInteractions_def split: option.splits)
  show ?thesis
    unfolding run by (simp split: option.splits)
qed

theorem VerifyState_result_of_validation_witness:
  "verifyInternalState demoVerifier demoWorld = (None, \<lparr>docs = Map.empty, outside = [''can validate'']\<rparr>)
   \<and> getPactFile demoIo demoVerifier \<lparr>docs = Map.empty, outside = [''can validate'']\<rparr>
       = Returns (Inr 0, \<lparr>docs = [0 \<mapsto> demoPact], outside = [''can validate'', ''read file'']\<rparr>)
   \<and> selectInteractions [] ''s'' 0 \<lparr>docs = [0 \<mapsto> demoPact], outside = [''can validate'', ''read file'']\<rparr>
       = Returns \<lparr>docs = [0 \<mapsto> demoPact\<lparr>Interactions := [demoInteraction1]\<rparr>],
                  outside = [''can validate'', ''read file'']\<rparr>
   \<and> VerifyState demoIo demoVerifier [] ''s'' demoWorld
       = Returns (None, \<lparr>docs = [0 \<mapsto> demoPact\<lparr>Interactions := [demoInteraction1]\<rparr>],
                         outside = [''can validate'', ''read file'', ''validate'']\<rparr>)
   \<and> selectInteractions ''b'' [] 0 \<lparr>docs = [0 \<mapsto> demoPact], outside = [''can validate'', ''read file'']\<rparr>
       = Returns \<lparr>docs = [0 \<mapsto> demoPact\<lparr>Interactions := [demoInteraction2]\<rparr>],
                  outside = [''can validate'', ''read file'']\<rparr>
   \<and> VerifyState demoIo demoVerifier ''b'' [] demoWorld
       = Returns (Some errVerficationFailed,
                  \<lparr>docs = [0 \<mapsto> demoPact\<lparr>Interactions := [demoInteraction2]\<rparr>],
                   outside = [''can validate'', ''read file'', ''validate'']\<rparr>)
   \<and> Validate (validator (demoVerifier\<lparr>validator := failingValidator\<rparr>)) 0
         (stateActions (demoVerifier\<lparr>validator := failingValidator\<rparr>))
         \<lparr>docs = [0 \<mapsto> demoPact], outside = [''can validate'', ''read file'']\<rparr>
       = ((False, Some (CollaboratorError ''setup failed'')),
          \<lparr>docs = [0 \<mapsto> demoPact], outside = [''can validate'', ''read file'', ''validate'']\<rparr>)
   \<and> VerifyState demoIo (demoVerifier\<lparr>validator := failingValidator\<rparr>) [] [] demoWorld
       = Returns (Some (CollaboratorError ''setup failed''),
                  \<lparr>docs = [0 \<mapsto> demoPact], outside = [''can validate'', ''read file'', ''validate'']\<rparr>)"
proof -
  let ?w1 = "\<lparr>docs = Map.empty, outside = [''can validate'']\<rparr> :: (string, nat, string list) world"
  let ?w2 = "\<lparr>docs = [0 \<mapsto> demoPact], outside = [''can validate'', ''read file'']\<rparr>
               :: (string, nat, string list) world"
  let ?w3 = "\<lparr>docs = [0 \<mapsto> demoPact\<lparr>Interactions := [demoInteraction1]\<rparr>],
               outside = [''can validate'', ''read file'']\<rparr> :: (string, nat, string list) world"
  let ?w4 = "\<lparr>docs = [0 \<mapsto> demoPact\<lparr>Interactions := [demoInteraction1]\<rparr>],
               outside = [''can validate'', ''read file'', ''validate'']\<rparr> :: (string, nat, string list) world"
  let ?u3 = "\<lparr>docs = [0 \<mapsto> demoPact\<lparr>Interactions := [demoInteraction2]\<rparr>],
               outside = [''can validate'', ''read file'']\<rparr> :: (string, nat, string list) world"
  let ?u4 = "\<lparr>docs = [0 \<mapsto> demoPact\<lparr>Interactions := [demoInteraction2]\<rparr>],
               outside = [''can validate'', ''read file'', ''validate'']\<rparr> :: (string, nat, string list) world"
  let ?x4 = "\<lparr>docs = [0 \<mapsto> demoPact], outside = [''can validate'', ''read file'', ''validate'']\<rparr>
               :: (string, nat, string list) world"
  let ?failing = "demoVerifier\<lparr>validator := failingValidator\<rparr>"
  have h1: "verifyInternalState demoVerifier demoWorld = (None, ?w1)"
    by (simp add: demo_defs verifyInternalState_def)
  have h2: "getPactFile demoIo demoVerifier ?w1 = Returns (Inr 0, ?w2)"
    by (simp add: demo_defs getPactFile_def pactReader_def readPactFile_def)
  have h3: "selectInteractions [] ''s'' 0 ?w2 = Returns ?w3"
    by (simp add: demo_defs selectInteractions_def filterDescription_def filterState_def
        setInteractions_def)
  have h4: "noInteractionsFound [] ''s'' 0 ?w3 = Returns False"
    by (simp add: noInteractionsFound_def)
  have h5: "Validate (validator demoVerifier) 0 (stateActions demoVerifier) ?w3 = ((True, None), ?w4)"
    by (simp add: demo_defs)
  have k3: "selectInteractions ''b'' [] 0 ?w2 = Returns ?u3"
    by (simp add: demo_defs selectInteractions_def filterDescription_def filterState_def
        setInteractions_def)
  have k4: "noInteractionsFound ''b'' [] 0 ?u3 = Returns False"
    by (simp add: noInteractionsFound_def)
  have k5: "Validate (validator demoVerifier) 0 (stateActions demoVerifier) ?u3 = ((False, None), ?u4)"
    by (simp add: demo_defs)
  have x1: "verifyInternalState ?failing demoWorld = (None, ?w1)"
    by (simp add: demo_defs failingValidator_def verifyInternalState_def)
  have x2: "getPactFile demoIo ?failing ?w1 = Returns (Inr 0, ?w2)"
    by (simp add: demo_defs getPactFile_def pactReader_def readPactFile_def)
  have x3: "selectInteractions [] [] 0 ?w2 = Returns ?w2"
    by (simp add: selectInteractions_def filterDescription_def filterState_def)
  have x4: "noInteractionsFound [] [] 0 ?w2 = Returns False"
    by (simp add: noInteractionsFound_def)
  have x5: "Validate (validator ?failing) 0 (stateActions ?failing) ?w2
              = ((False, Some (CollaboratorError ''setup failed'')), ?x4)"
    by (simp add: demo_defs failingValidator_def)
  have a: "VerifyState demoIo demoVerifier [] ''s'' demoWorld = Returns (None, ?w4)"
    using VerifyState_result_of_validation[OF h1 h2 h3 h4 h5] by simp
  have b: "VerifyState demoIo demoVerifier ''b'' [] demoWorld = Returns (Some errVerficationFailed, ?u4)"
    using VerifyState_result_of_validation[OF h1 h2 k3 k4 k5] by simp
  have c: "VerifyState demoIo ?failing [] [] demoWorld = Returns (Some (CollaboratorError ''setup failed''), ?x4)"
    using VerifyState_result_of_validation[OF x1 x2 x3 x4 x5] by simp
  show ?thesis
    by (intro conjI) (rule h1 h2 h3 a k3 b x5 c)+
qed

subsection \<open>The document after the selection\<close>

text \<open>
  C9, as stated, fails: the filters assign to the field \<^verbatim>\<open>Interactions\<close> of the
  fetched document itself. After a selection by the description \<^verbatim>\<open>a\<close> the document
  at the same address has two interactions where it had three.
\<close>

theorem selectInteractions_mutates_counterexample:
  "docs \<lparr>docs = [0 \<mapsto> demoPact], outside = ([] :: string list)\<rparr> 0 = Some demoPact
   \<and> Interactions demoPact = [demoInteraction1, demoInteraction2, demoInteraction3]
   \<and> selectInteractions ''a'' [] 0 \<lparr>docs = [0 \<mapsto> demoPact], outside = ([] :: string list)\<rparr>
       = Returns \<lparr>docs = [0 \<mapsto> demoPact\<lparr>Interactions := [demoInteraction1, demoInteraction3]\<rparr>],
                  outside = []\<rparr>
   \<and> Interactions (demoPact\<lparr>Interactions := [demoInteraction1, demoInteraction3]\<rparr>)
       \<noteq> Interactions demoPact"
  by (simp add: demo_defs selectInteractions_def filterDescription_def filterState_def
      setInteractions_def)

text \<open>
  C9, amended. The selection overwrites the interactions of the fetched document, in
  place, with the selected ones. Every other document of the store and everything
  outside the store stay as they are; with two empty filters nothing changes at all;
  and the document is unchanged exactly when every one of its interactions passes the
  filters.
\<close>

theorem selectInteractions_frame:
  assumes "docs w f = Some d"
  shows "\<exists>w'. selectInteractions description state f w = Returns w'
           \<and> docs w' f = Some (d\<lparr>Interactions := selectSpec description state (Interactions d)\<rparr>)
           \<and> (\<forall>g. g \<noteq> f \<longrightarrow> docs w' g = docs w g)
           \<and> outside w' = outside w
           \<and> (description = [] \<and> state = [] \<longrightarrow> w' = w)
           \<and> (docs w' f = docs w f \<longleftrightarrow>
                (\<forall>i \<in> set (Interactions d).
                    (description = [] \<or> Description i = description)
                  \<and> (state = [] \<or> State i = state)))"
proof -
  let ?sel = "selectSpec description state (Interactions d)"
  let ?w' = "w\<lparr>docs := (docs w)(f \<mapsto> d\<lparr>Interactions := ?sel\<rparr>)\<rparr>"
  have run: "selectInteractions description state f w = Returns ?w'"
    by (rule selectInteractions_Some[OF assms])
  have same: "?sel = Interactions d \<longleftrightarrow>
                (\<forall>i \<in> set (Interactions d).
                    (description = [] \<or> Description i = description)
                  \<and> (state = [] \<or> State i = state))"
    unfolding selectSpec_def by (rule filter_id_conv)
  have upd: "d\<lparr>Interactions := ?sel\<rparr> = d \<longleftrightarrow> ?sel = Interactions d"
    by (cases d) auto
  have unfiltered: "description = [] \<and> state = [] \<longrightarrow> ?w' = w"
    using assms by (simp add: selectSpec_def map_upd_triv)
  have "docs ?w' f = docs w f \<longleftrightarrow> ?sel = Interactions d"
    using assms upd by simp
  with run same unfiltered show ?thesis
    by simp
qed

theorem selectInteractions_frame_witness:
  "docs \<lparr>docs = [0 \<mapsto> demoPact, 1 \<mapsto> demoPact], outside = [''read file'']\<rparr> 0 = Some demoPact
   \<and> (\<exists>w'. selectInteractions ''a'' [] 0
               \<lparr>docs = [0 \<mapsto> demoPact, 1 \<mapsto> demoPact], outside = [''read file'']\<rparr> = Returns w'
          \<and> docs w' 0 = Some (demoPact\<lparr>Interactions := [demoInteraction1, demoInteraction3]\<rparr>)
          \<and> docs w' 1 = Some demoPact
          \<and> outside w' = [''read file''])
   \<and> selectInteractions [] [] 0 \<lparr>docs = [0 \<mapsto> demoPact, 1 \<mapsto> demoPact], outside = [''read file'']\<rparr>
       = Returns \<lparr>docs = [0 \<mapsto> demoPact, 1 \<mapsto> demoPact], outside = [''read file'']\<rparr>"
proof -
  let ?w = "\<lparr>docs = [0 \<mapsto> demoPact, 1 \<mapsto> demoPact], outside = [''read file'']\<rparr>
              :: (string, nat, string list) world"
  have h: "docs ?w 0 = Some demoPact"
    by simp
  have sel: "selectSpec ''a'' [] (Interactions demoPact) = [demoInteraction1, demoInteraction3]"
    by (simp add: selectSpec_def demo_defs)
  from selectInteractions_frame[OF h, of "''a''" "[]"]
  obtain w' where run: "selectInteractions ''a'' [] 0 ?w = Returns w'"
    and doc: "docs w' 0 = Some (demoPact\<lparr>Interactions := selectSpec ''a'' [] (Interactions demoPact)\<rparr>)"
    and others: "\<forall>g. g \<noteq> 0 \<longrightarrow> docs w' g = docs ?w g"
    and out: "outside w' = outside ?w"
    by blast
  from others have "docs w' 1 = docs ?w 1"
    by simp
  then have one: "docs w' 1 = Some demoPact"
    by simp
  from doc sel have doc': "docs w' 0 = Some (demoPact\<lparr>Interactions := [demoInteraction1, demoInteraction3]\<rparr>)"
    by simp
  from out have out': "outside w' = [''read file'']"
    by simp
  from run doc' one out'
  have filtered: "\<exists>w'. selectInteractions ''a'' [] 0 ?w = Returns w'
          \<and> docs w' 0 = Some (demoPact\<lparr>Interactions := [demoInteraction1, demoInteraction3]\<rparr>)
          \<and> docs w' 1 = Some demoPact
          \<and> outside w' = [''read file'']"
    by blast
  from selectInteractions_frame[OF h, of "[]" "[]"]
  obtain u where "selectInteractions [] [] 0 ?w = Returns u" and "u = ?w"
    by blast
  then have unfiltered: "selectInteractions [] [] 0 ?w = Returns ?w"
    by simp
  show ?thesis
    by (intro conjI) (rule h filtered unfiltered)+
qed

subsection \<open>Setup and teardown around an interaction\<close>

text \<open>
  C7, against the validator as the specification describes it. For an interaction
  whose non-empty label has a registered action: if setup fails, its error is the
  verdict, and the events are the setup alone (no request, no teardown); if setup
  succeeds, the events are the setup, then the request, then the match when the
  request got a response, then the teardown, once and last, whatever the match found.
  Each step runs in the world that the previous one left. Every interaction of a run
  is verified in this way, in the world that the interactions before it left, and its
  events stand between theirs and those of the interactions after it.
\<close>

theorem verifyInteraction_order:
  assumes "State i \<noteq> []" and "sa (State i) = Some a"
  shows "(setupAction a w = (Some err, w1) \<longrightarrow>
            verifyInteraction p sa i w
              = ((\<lparr>matched = False, mismatches = [], failure = Some err\<rparr>,
                  [SetupRun (State i)]), w1))
       \<and> (setupAction a w = (None, w1) \<and> Invoke p (Request i) w1 = (Inr actual, w2)
            \<and> teardownAction a w2 = (terr, w3) \<longrightarrow>
            verifyInteraction p sa i w
              = ((afterTeardown terr
                    \<lparr>matched = (Match p (Response i) actual = []),
                     mismatches = Match p (Response i) actual, failure = None\<rparr>,
                  [SetupRun (State i), RequestReplayed (Request i),
                   ResponseMatched (Response i) actual, TeardownRun (State i)]), w3))
       \<and> (setupAction a w = (None, w1) \<and> Invoke p (Request i) w1 = (Inl err, w2)
            \<and> teardownAction a w2 = (terr, w3) \<longrightarrow>
            verifyInteraction p sa i w
              = ((\<lparr>matched = False, mismatches = [], failure = Some err\<rparr>,
                  [SetupRun (State i), RequestReplayed (Request i), TeardownRun (State i)]), w3))
       \<and> verifyInteractions p sa (xs @ i # ys) w0 =
            (case verifyInteractions p sa xs w0 of
               ((vds, trs), w') \<Rightarrow>
                 (case verifyInteraction p sa i w' of
                    ((vd, tr), w'') \<Rightarrow>
                      (case verifyInteractions p sa ys w'' of
                         ((vds', trs'), w''') \<Rightarrow> ((vds @ vd # vds', trs @ tr @ trs'), w'''))))"
proof -
  have one: "(setupAction a w = (Some err, w1) \<longrightarrow>
            verifyInteraction p sa i w
              = ((\<lparr>matched = False, mismatches = [], failure = Some err\<rparr>,
                  [SetupRun (State i)]), w1))"
    using assms by (simp add: verifyInteraction_def)
  have two: "(setupAction a w = (None, w1) \<and> Invoke p (Request i) w1 = (Inr actual, w2)
            \<and> teardownAction a w2 = (terr, w3) \<longrightarrow>
            verifyInteraction p sa i w
              = ((afterTeardown terr
                    \<lparr>matched = (Match p (Response i) actual = []),
                     mismatches = Match p (Response i) actual, failure = None\<rparr>,
                  [SetupRun (State i), RequestReplayed (Request i),
                   ResponseMatched (Response i) actual, TeardownRun (State i)]), w3))"
    using assms by (simp add: verifyInteraction_def replayAndMatch_def)
  have three: "(setupAction a w = (None, w1) \<and> Invoke p (Request i) w1 = (Inl err, w2)
            \<and> teardownAction a w2 = (terr, w3) \<longrightarrow>
            verifyInteraction p sa i w
              = ((\<lparr>matched = False, mismatches = [], failure = Some err\<rparr>,
                  [SetupRun (State i), RequestReplayed (Request i), TeardownRun (State i)]), w3))"
    using assms
    by (simp add: verifyInteraction_def replayAndMatch_def afterTeardown_def split: option.splits)
  from one two three verifyInteractions_nth[of p sa xs i ys w0] show ?thesis
    by blast
qed

theorem verifyInteraction_order_witness:
  "State demoInteraction1 \<noteq> []
   \<and> verifyInteraction demoProvider demoActions demoInteraction1 demoWorld
       = ((\<lparr>matched = True, mismatches = [], failure = None\<rparr>,
           [SetupRun ''s'', RequestReplayed ''r1'', ResponseMatched 200 200, TeardownRun ''s'']),
          \<lparr>docs = Map.empty, outside = [''set up'', ''request'', ''tear down'']\<rparr>)
   \<and> State demoInteraction3 \<noteq> []
   \<and> verifyInteraction demoProvider demoActions demoInteraction3 demoWorld
       = ((\<lparr>matched = False, mismatches = [], failure = Some (CollaboratorError ''no fixture'')\<rparr>,
           [SetupRun ''t'']),
          \<lparr>docs = Map.empty, outside = [''set up'']\<rparr>)
   \<and> verifyInteraction demoProvider
         [''t'' \<mapsto> \<lparr>setupAction = (\<lambda>w. (None, logged ''set up'' w)),
                    teardownAction = (\<lambda>w. (None, logged ''tear down'' w))\<rparr>]
         demoInteraction3 demoWorld
       = ((\<lparr>matched = False, mismatches = [], failure = Some (CollaboratorError ''timeout'')\<rparr>,
           [SetupRun ''t'', RequestReplayed ''r3'', TeardownRun ''t'']),
          \<lparr>docs = Map.empty, outside = [''set up'', ''request'', ''tear down'']\<rparr>)
   \<and> verifyInteractions demoProvider demoActions (Interactions demoPact) demoWorld
       = (([\<lparr>matched = True, mismatches = [], failure = None\<rparr>,
            \<lparr>matched = False, mismatches = [''status''], failure = None\<rparr>,
            \<lparr>matched = False, mismatches = [], failure = Some (CollaboratorError ''no fixture'')\<rparr>],
           [SetupRun ''s'', RequestReplayed ''r1'', ResponseMatched 200 200, TeardownRun ''s'',
            RequestReplayed ''r2'', ResponseMatched 404 200,
            SetupRun ''t'']),
          \<lparr>docs = Map.empty,
           outside = [''set up'', ''request'', ''tear down'', ''request'', ''set up'']\<rparr>)"
proof -
  let ?s = "\<lparr>setupAction = (\<lambda>w. (None, logged ''set up'' w)),
             teardownAction = (\<lambda>w. (None, logged ''tear down'' w))\<rparr>
              :: (string, nat, string list) Action stateAction"
  let ?t = "\<lparr>setupAction = (\<lambda>w. (Some (CollaboratorError ''no fixture''), logged ''set up'' w)),
             teardownAction = (\<lambda>w. (None, logged ''tear down'' w))\<rparr>
              :: (string, nat, string list) Action stateAction"
  let ?sa = "[''t'' \<mapsto> ?s] :: string \<rightharpoonup> (string, nat, string list) Action stateAction"
  let ?w1 = "\<lparr>docs = Map.empty, outside = [''set up'']\<rparr> :: (string, nat, string list) world"
  let ?w2 = "\<lparr>docs = Map.empty, outside = [''set up'', ''request'']\<rparr> :: (string, nat, string list) world"
  let ?w3 = "\<lparr>docs = Map.empty, outside = [''set up'', ''request'', ''tear down'']\<rparr>
               :: (string, nat, string list) world"
  have l1: "State demoInteraction1 \<noteq> []" and l3: "State demoInteraction3 \<noteq> []"
    by (simp_all add: demo_defs)
  have a1: "demoActions (State demoInteraction1) = Some ?s"
    by (simp add: demoActions_def demo_defs)
  have a3: "demoActions (State demoInteraction3) = Some ?t"
    by (simp add: demoActions_def demo_defs)
  have a3': "?sa (State demoInteraction3) = Some ?s"
    by (simp add: demo_defs)
  have s1: "setupAction ?s demoWorld = (None, ?w1)"
    by (simp add: demo_defs)
  have r1: "Invoke demoProvider (Request demoInteraction1) ?w1 = (Inr 200, ?w2)"
    by (simp add: demoProvider_def demo_defs)
  have r3: "Invoke demoProvider (Request demoInteraction3) ?w1 = (Inl (CollaboratorError ''timeout''), ?w2)"
    by (simp add: demoProvider_def demo_defs)
  have t1: "teardownAction ?s ?w2 = (None, ?w3)"
    by (simp add: demo_defs)
  have s3: "setupAction ?t demoWorld = (Some (CollaboratorError ''no fixture''), ?w1)"
    by (simp add: demo_defs)
  from verifyInteraction_order[where i = demoInteraction1 and sa = demoActions and a = "?s"
      and w = demoWorld and ?w1.0 = "?w1" and p = demoProvider and actual = 200 and ?w2.0 = "?w2"
      and terr = None and ?w3.0 = "?w3", OF l1 a1] s1 r1 t1
  have a: "verifyInteraction demoProvider demoActions demoInteraction1 demoWorld
       = ((\<lparr>matched = True, mismatches = [], failure = None\<rparr>,
           [SetupRun ''s'', RequestReplayed ''r1'', ResponseMatched 200 200, TeardownRun ''s'']), ?w3)"
    by (simp add: afterTeardown_def demoProvider_def demo_defs)
  from verifyInteraction_order[where i = demoInteraction3 and sa = demoActions and a = "?t"
      and w = demoWorld and err = "CollaboratorError ''no fixture''" and ?w1.0 = "?w1"
      and p = demoProvider, OF l3 a3] s3
  have b: "verifyInteraction demoProvider demoActions demoInteraction3 demoWorld
       = ((\<lparr>matched = False, mismatches = [], failure = Some (CollaboratorError ''no fixture'')\<rparr>,
           [SetupRun ''t'']), ?w1)"
    by (simp add: demo_defs)
  from verifyInteraction_order[where i = demoInteraction3 and sa = "?sa" and a = "?s"
      and w = demoWorld and err = "CollaboratorError ''timeout''" and ?w1.0 = "?w1"
      and p = demoProvider and ?w2.0 = "?w2" and terr = None and ?w3.0 = "?w3", OF l3 a3'] s1 r3 t1
  have c: "verifyInteraction demoProvider ?sa demoInteraction3 demoWorld
       = ((\<lparr>matched = False, mismatches = [], failure = Some (CollaboratorError ''timeout'')\<rparr>,
           [SetupRun ''t'', RequestReplayed ''r3'', TeardownRun ''t'']), ?w3)"
    by (simp add: demo_defs)
  have d: "verifyInteractions demoProvider demoActions (Interactions demoPact) demoWorld
       = (([\<lparr>matched = True, mismatches = [], failure = None\<rparr>,
            \<lparr>matched = False, mismatches = [''status''], failure = None\<rparr>,
            \<lparr>matched = False, mismatches = [], failure = Some (CollaboratorError ''no fixture'')\<rparr>],
           [SetupRun ''s'', RequestReplayed ''r1'', ResponseMatched 200 200, TeardownRun ''s'',
            RequestReplayed ''r2'', ResponseMatched 404 200,
            SetupRun ''t'']),
          \<lparr>docs = Map.empty,
           outside = [''set up'', ''request'', ''tear down'', ''request'', ''set up'']\<rparr>)"
    by (simp add: verifyInteraction_def replayAndMatch_def afterTeardown_def demoProvider_def
        demoActions_def demo_defs)
  show ?thesis
    by (intro conjI) (rule l1 a l3 b c d)+
qed

end
